theory Spec2Isabelle
  imports Complex_Main "HOL-Library.Word"
begin

section \<open>Conventions of the embedding\<close>

text \<open>
  The repository is a browser application: \<open>AudioProcessor\<close> (audioUtils) wraps the Web
  Audio graph, \<open>SoundVisualizer\<close> polls it and feeds \<open>CloudParticles\<close> and
  \<open>EnergyDisturbance\<close>, whose frame callbacks animate a point cloud and a mesh.

  \<^item> A \<open>Uint8Array\<close> is an \<open>8 word list\<close>; reading an element as a number is \<open>unat\<close>.
  \<^item> A JavaScript \<open>number\<close> that is used as a count or an index is \<open>nat\<close> or \<open>int\<close>;
    every other \<open>number\<close> is a \<open>real\<close>. The embedding computes with exact reals where
    the program computes with IEEE doubles (and stores positions as 32-bit floats), so
    \<open>NaN\<close> and rounding error are outside the model.
  \<^item> What the platform supplies (the spectrum of the analyser, the outcome of a
    permission prompt, the draws of \<open>Math.random\<close>, the clock) is an explicit argument.
  \<^item> Logging is omitted.
\<close>

section \<open>Array operations of the host language\<close>

text \<open>\<open>Array.prototype.slice(begin, end)\<close>: negative indices count from the end, both
  indices are clamped to the array.\<close>

definition slice_array :: "'a list \<Rightarrow> int \<Rightarrow> int \<Rightarrow> 'a list" where
  "slice_array xs b e =
     (let n = int (length xs);
          k = (if b < 0 then max (n + b) 0 else min b n);
          f = (if e < 0 then max (n + e) 0 else min e n)
      in take (nat (f - k)) (drop (nat k) xs))"

text \<open>\<open>slice(begin)\<close> with the end left out.\<close>

definition slice_from :: "'a list \<Rightarrow> int \<Rightarrow> 'a list" where
  "slice_from xs b = slice_array xs b (int (length xs))"

text \<open>\<open>xs.reduce((sum, val) => sum + val, 0)\<close>.\<close>

definition reduce_sum :: "'a::monoid_add list \<Rightarrow> 'a" where
  "reduce_sum xs = foldl (\<lambda>sum val. sum + val) 0 xs"

text \<open>\<open>Array(n).fill(0)\<close>.\<close>

definition zeros :: "nat \<Rightarrow> 'a::zero list" where
  "zeros n = replicate n 0"

section \<open>AudioProcessor: the analysis queries\<close>

type_synonym byte = "8 word"
type_synonym node = nat
type_synonym track = nat
type_synonym element = nat

record AudioProcessor =
  audioContext :: "unit option"
  analyser :: "node option"
  dataArray :: "byte list option"
  microphoneStream :: "track list option"
  oscillator :: "node option"
  sourceNode :: "node option"
  mediaElementSource :: "node option"
  connectedAudioElement :: "element option"

text \<open>The constructor leaves every field \<open>null\<close>.\<close>

definition newAudioProcessor :: AudioProcessor where
  "newAudioProcessor =
     \<lparr>audioContext = None, analyser = None, dataArray = None, microphoneStream = None,
      oscillator = None, sourceNode = None, mediaElementSource = None,
      connectedAudioElement = None\<rparr>"

definition fftSize :: nat where
  "fftSize = 2048"

definition frequencyBinCount :: nat where
  "frequencyBinCount = fftSize div 2"

text \<open>\<open>analyser.getByteFrequencyData(array)\<close> and \<open>getByteTimeDomainData(array)\<close> copy
  what the analyser currently holds into the array; the array keeps its length and the
  elements the analyser does not cover.\<close>

definition fillBytes :: "byte list \<Rightarrow> byte list \<Rightarrow> byte list" where
  "fillBytes current array = take (length array) current @ drop (length current) array"

text \<open>\<open>getFrequencyData\<close>: the refreshed array, or \<open>null\<close>. The second component is the
  processor afterwards (the array is refreshed in place).\<close>

definition getFrequencyData :: "byte list \<Rightarrow> AudioProcessor \<Rightarrow> byte list option \<times> AudioProcessor" where
  "getFrequencyData spectrum p =
     (case (analyser p, dataArray p) of
        (Some a, Some d) \<Rightarrow>
          (let d' = fillBytes spectrum d in (Some d', p\<lparr>dataArray := Some d'\<rparr>))
      | _ \<Rightarrow> (None, p))"

text \<open>The loop of \<open>getRawVolume\<close> over the time-domain buffer.\<close>

definition amplitude :: "byte \<Rightarrow> real" where
  "amplitude b = real (unat b) / 128 - 1"

definition sumOfSquares :: "byte list \<Rightarrow> real" where
  "sumOfSquares timeDomainData =
     foldl (\<lambda>acc b. acc + amplitude b * amplitude b) 0 timeDomainData"

definition rms :: "byte list \<Rightarrow> real" where
  "rms timeDomainData = sqrt (sumOfSquares timeDomainData / real (length timeDomainData))"

text \<open>The buffer of \<open>getRawVolume\<close>: a fresh \<open>Uint8Array(fftSize)\<close> filled by
  \<open>getByteTimeDomainData\<close>; \<open>waveform\<close> is what the analyser holds in the time domain.\<close>

definition timeDomainData :: "byte list \<Rightarrow> byte list" where
  "timeDomainData waveform = fillBytes waveform (zeros fftSize)"

definition getRawVolume :: "byte list \<Rightarrow> AudioProcessor \<Rightarrow> real" where
  "getRawVolume waveform p =
     (if analyser p = None \<or> dataArray p = None then 0
      else rms (timeDomainData waveform))"

text \<open>The band boundaries: \<open>Math.log\<close>, \<open>Math.exp\<close> and \<open>Math.round\<close> on reals.\<close>

definition logSpace :: "real \<Rightarrow> real \<Rightarrow> nat \<Rightarrow> int list" where
  "logSpace start end n =
     (let logStart = ln start;
          logEnd = ln end;
          delta = (logEnd - logStart) / (real n - 1)
      in map (\<lambda>i. round (exp (logStart + delta * real i))) [0..<n])"

definition startBin :: nat where
  "startBin = 1"

definition totalBands :: nat where
  "totalBands = 8"

definition endBin :: "byte list \<Rightarrow> nat" where
  "endBin d = min 800 (length d)"

text \<open>The peak of one band: \<open>Math.max(...bandData)\<close>, or 0 for an empty slice.\<close>

definition bandValue :: "byte list \<Rightarrow> nat" where
  "bandValue bandData = (if length bandData > 0 then Max (set (map unat bandData)) else 0)"

text \<open>The body of \<open>getFrequencyBands\<close> after the array has been refreshed.\<close>

definition frequencyBands :: "byte list \<Rightarrow> nat list" where
  "frequencyBands d =
     (let sum = reduce_sum (map unat d);
          hasSignal = (sum > 0);
          usefulRange = slice_array d (int startBin) (int (endBin d))
      in if hasSignal then
           (let bandBoundaries = logSpace (real startBin) (real (endBin d)) (totalBands + 1)
            in map (\<lambda>i. let startIndex = bandBoundaries ! i;
                            endIndex = bandBoundaries ! (i + 1);
                            bandData = slice_array usefulRange (startIndex - int startBin)
                                             (endIndex - int startBin)
                        in bandValue bandData) [0..<totalBands])
         else zeros totalBands)"

definition getFrequencyBands :: "byte list \<Rightarrow> AudioProcessor \<Rightarrow> nat list \<times> AudioProcessor" where
  "getFrequencyBands spectrum p =
     (case (dataArray p, analyser p) of
        (Some d, Some a) \<Rightarrow>
          (let d' = fillBytes spectrum d in (frequencyBands d', p\<lparr>dataArray := Some d'\<rparr>))
      | _ \<Rightarrow> (zeros 8, p))"

section \<open>The audio graph of the platform\<close>

text \<open>
  The Web Audio objects the processor drives, reduced to what its calls can change:
  which nodes exist, which connections exist, which oscillators are running, which
  microphone tracks are live, which media elements already feed a source node and which
  are playing. \<open>connect\<close> of a pair that is already connected adds nothing;
  \<open>disconnect()\<close> removes every outgoing connection of the node;
  \<open>createMediaElementSource\<close> throws for an element that already has a source node.
\<close>

record audio_graph =
  created :: nat
  edges :: "(node \<times> node) list"
  running :: "node list"
  liveTracks :: "track list"
  boundElements :: "element list"
  playing :: "element list"

text \<open>Node 0 is \<open>audioContext.destination\<close>.\<close>

definition destination :: node where
  "destination = 0"

definition emptyGraph :: audio_graph where
  "emptyGraph = \<lparr>created = 1, edges = [], running = [], liveTracks = [],
                  boundElements = [], playing = []\<rparr>"

definition createNode :: "audio_graph \<Rightarrow> node \<times> audio_graph" where
  "createNode g = (created g, g\<lparr>created := Suc (created g)\<rparr>)"

definition connect :: "node \<Rightarrow> node \<Rightarrow> audio_graph \<Rightarrow> audio_graph" where
  "connect a b g = g\<lparr>edges := List.insert (a, b) (edges g)\<rparr>"

definition disconnect :: "node \<Rightarrow> audio_graph \<Rightarrow> audio_graph" where
  "disconnect a g = g\<lparr>edges := filter (\<lambda>e. fst e \<noteq> a) (edges g)\<rparr>"

definition start :: "node \<Rightarrow> audio_graph \<Rightarrow> audio_graph" where
  "start n g = g\<lparr>running := List.insert n (running g)\<rparr>"

definition stop :: "node \<Rightarrow> audio_graph \<Rightarrow> audio_graph" where
  "stop n g = g\<lparr>running := removeAll n (running g)\<rparr>"

definition stopTrack :: "track \<Rightarrow> audio_graph \<Rightarrow> audio_graph" where
  "stopTrack t g = g\<lparr>liveTracks := removeAll t (liveTracks g)\<rparr>"

definition pause :: "element \<Rightarrow> audio_graph \<Rightarrow> audio_graph" where
  "pause el g = g\<lparr>playing := removeAll el (playing g)\<rparr>"

section \<open>AudioProcessor: acquisition and cleanup\<close>

text \<open>
  Each method takes the graph and the processor and returns both, after the boolean it
  resolves to. \<open>contextAvailable\<close> says whether \<open>new AudioContext()\<close> succeeds (it is only
  called when the processor has no context; the code never closes one, and
  \<open>resume()\<close> is taken to succeed). The \<open>catch\<close> blocks return \<open>false\<close> with whatever
  had been assigned before the exception.
\<close>

fun initAudioContext ::
  "bool \<Rightarrow> audio_graph \<times> AudioProcessor \<Rightarrow> bool \<times> audio_graph \<times> AudioProcessor" where
  "initAudioContext contextAvailable (g, p) =
     (if audioContext p = None \<and> \<not> contextAvailable then (False, g, p)
      else (case createNode g of (a, g') \<Rightarrow>
              (True, g', p\<lparr>audioContext := Some (), analyser := Some a,
                            dataArray := Some (zeros frequencyBinCount)\<rparr>)))"

text \<open>\<open>userMedia\<close> is the outcome of \<open>getUserMedia\<close>: \<open>None\<close> when the promise is
  rejected, otherwise the tracks of the new stream. \<open>spectrum\<close> is what the analyser
  holds when the method samples it once at the end. The diagnostic timers only log.\<close>

fun requestMicrophoneAccess ::
  "bool \<Rightarrow> track list option \<Rightarrow> byte list \<Rightarrow> audio_graph \<times> AudioProcessor
     \<Rightarrow> bool \<times> audio_graph \<times> AudioProcessor" where
  "requestMicrophoneAccess contextAvailable userMedia spectrum (g, p) =
     (case initAudioContext contextAvailable (g, p) of
        (False, g1, p1) \<Rightarrow> (False, g1, p1)
      | (True, g1, p1) \<Rightarrow>
          (case userMedia of
             None \<Rightarrow> (False, g1, p1)
           | Some tracks \<Rightarrow>
               (let g2 = g1\<lparr>liveTracks := tracks @ liveTracks g1\<rparr>;
                    p2 = p1\<lparr>microphoneStream := Some tracks\<rparr>
                in case (audioContext p2, analyser p2) of
                     (Some c, Some a) \<Rightarrow>
                       (let g3 = (case sourceNode p2 of
                                    Some old \<Rightarrow> disconnect old g2
                                  | None \<Rightarrow> g2)
                        in case createNode g3 of (src, g4) \<Rightarrow>
                             (True, connect src a g4,
                              p2\<lparr>sourceNode := Some src,
                                  dataArray := map_option (fillBytes spectrum) (dataArray p2)\<rparr>))
                   | _ \<Rightarrow> (False, g2, p2))))"

text \<open>One round of the loop that builds the oscillator bank.\<close>

fun addOscillator :: "node \<Rightarrow> audio_graph \<times> node list \<Rightarrow> audio_graph \<times> node list" where
  "addOscillator masterGain (g, oscillators) =
     (case createNode g of (osc, g1) \<Rightarrow>
        (case createNode g1 of (gain, g2) \<Rightarrow>
           (start osc (connect gain masterGain (connect osc gain g2)), oscillators @ [osc])))"

definition frequencies :: "real list" where
  "frequencies = [220, 220 * 2, 220 * 3, 220 * 4]"

text \<open>A connection to \<open>masterGain.gain\<close> (an audio parameter) is recorded as a connection
  to the gain node.\<close>

fun createTestTone ::
  "bool \<Rightarrow> audio_graph \<times> AudioProcessor \<Rightarrow> bool \<times> audio_graph \<times> AudioProcessor" where
  "createTestTone contextAvailable (g, p) =
     (case initAudioContext contextAvailable (g, p) of
        (False, g1, p1) \<Rightarrow> (False, g1, p1)
      | (True, g1, p1) \<Rightarrow>
          (case (audioContext p1, analyser p1) of
             (Some c, Some a) \<Rightarrow>
               (let (g2, p2) = (case oscillator p1 of
                                  Some old \<Rightarrow> (disconnect old (stop old g1), p1\<lparr>oscillator := None\<rparr>)
                                | None \<Rightarrow> (g1, p1))
                in case createNode g2 of (masterGain, g3) \<Rightarrow>
                   (case createNode (connect masterGain a g3) of (lfo, g4) \<Rightarrow>
                   (case createNode g4 of (lfoGain, g5) \<Rightarrow>
                      (let g6 = start lfo (connect lfoGain masterGain (connect lfo lfoGain g5));
                           (g7, oscillators) =
                              fold (\<lambda>i. addOscillator masterGain) [0..<length frequencies] (g6, [])
                       in (True, g7, p2\<lparr>oscillator := Some (oscillators ! 0)\<rparr>)))))
           | _ \<Rightarrow> (False, g1, p1)))"

fun connectAudioElement ::
  "bool \<Rightarrow> element \<Rightarrow> audio_graph \<times> AudioProcessor \<Rightarrow> bool \<times> audio_graph \<times> AudioProcessor" where
  "connectAudioElement contextAvailable audioElement (g, p) =
     (case initAudioContext contextAvailable (g, p) of
        (False, g1, p1) \<Rightarrow> (False, g1, p1)
      | (True, g1, p1) \<Rightarrow>
          (case (audioContext p1, analyser p1) of
             (Some c, Some a) \<Rightarrow>
               (case (connectedAudioElement p1 = Some audioElement, mediaElementSource p1) of
                  (True, Some existing) \<Rightarrow>
                    (True, connect a destination (connect existing a g1), p1)
                | _ \<Rightarrow>
                    (if audioElement \<in> set (boundElements g1) then (False, g1, p1)
                     else (case createNode g1 of (src, g2) \<Rightarrow>
                             (True,
                              connect a destination
                                (connect src a
                                   (g2\<lparr>boundElements := audioElement # boundElements g2\<rparr>)),
                              p1\<lparr>mediaElementSource := Some src,
                                  connectedAudioElement := Some audioElement\<rparr>))))
           | _ \<Rightarrow> (False, g1, p1)))"

text \<open>\<open>cleanup\<close>. The media element source and the analyser are disconnected but kept
  (the assignments of \<open>null\<close> are commented out in the source).\<close>

fun cleanup :: "audio_graph \<times> AudioProcessor \<Rightarrow> audio_graph \<times> AudioProcessor" where
  "cleanup (g, p) =
     (let (g1, p1) = (case microphoneStream p of
                        Some tracks \<Rightarrow> (fold stopTrack tracks g, p\<lparr>microphoneStream := None\<rparr>)
                      | None \<Rightarrow> (g, p));
          (g2, p2) = (case oscillator p1 of
                        Some osc \<Rightarrow> (disconnect osc (stop osc g1), p1\<lparr>oscillator := None\<rparr>)
                      | None \<Rightarrow> (g1, p1));
          (g3, p3) = (case sourceNode p2 of
                        Some src \<Rightarrow> (disconnect src g2, p2\<lparr>sourceNode := None\<rparr>)
                      | None \<Rightarrow> (g2, p2));
          g4 = (case mediaElementSource p3 of Some src \<Rightarrow> disconnect src g3 | None \<Rightarrow> g3);
          g5 = (case analyser p3 of Some a \<Rightarrow> disconnect a g4 | None \<Rightarrow> g4)
      in (g5, p3\<lparr>dataArray := None\<rparr>))"

section \<open>SoundVisualizer: the component state\<close>

datatype microphone_status = Initial | Requesting | Active | Test | Sample | Error

record visualizer =
  isListening :: bool
  audioData_state :: "real list"
  microphoneStatus :: microphone_status
  audioLevel :: real
  rawVolume :: real
  sensitivity_state :: real
  animationFrameRef :: "nat option"
  audioElementRef :: "element option"

text \<open>The initial values of the \<open>useState\<close> and \<open>useRef\<close> hooks. The state variables
  \<open>audioData\<close> and \<open>sensitivity\<close> carry the suffix \<open>_state\<close>, to keep them apart from the
  component properties of the same names.\<close>

definition newVisualizer :: visualizer where
  "newVisualizer =
     \<lparr>isListening = False, audioData_state = zeros 8, microphoneStatus = Initial, audioLevel = 0,
      rawVolume = 0, sensitivity_state = 1, animationFrameRef = None, audioElementRef = None\<rparr>"

text \<open>\<open>stopListening\<close>: the state the component has once the handler has run and its
  state updates have been applied. The handle in \<open>animationFrameRef\<close> comes from
  \<open>setTimeout\<close>; \<open>cancelAnimationFrame\<close> does not clear a timeout, so besides the
  reference nothing changes there.\<close>

fun stopListening ::
  "visualizer \<times> audio_graph \<times> AudioProcessor \<Rightarrow> visualizer \<times> audio_graph \<times> AudioProcessor" where
  "stopListening (v, g, p) =
     (let v1 = (if animationFrameRef v \<noteq> None then v\<lparr>animationFrameRef := None\<rparr> else v);
          g1 = (case audioElementRef v1 of
                  Some el \<Rightarrow> (if microphoneStatus v1 = Sample then pause el g else g)
                | None \<Rightarrow> g);
          (g2, p2) = cleanup (g1, p)
      in (v1\<lparr>isListening := False, microphoneStatus := Initial, audioData_state := zeros 8,
              audioLevel := 0\<rparr>, g2, p2))"

text \<open>\<open>updateAudioData\<close>, one poll: \<open>timer\<close> is the handle \<open>setTimeout\<close> returns. The
  debug panel's state is left out. \<open>listening\<close> is the value of \<open>isListening\<close> that the
  running closure has captured: the effect starts the poll in a render where it is
  \<open>true\<close>, and the timer re-arms that same closure.\<close>

fun updateAudioData ::
  "bool \<Rightarrow> byte list \<Rightarrow> byte list \<Rightarrow> nat \<Rightarrow> visualizer \<times> AudioProcessor
     \<Rightarrow> visualizer \<times> AudioProcessor" where
  "updateAudioData listening spectrum waveform timer (v, p) =
     (if listening then
        (case getFrequencyData spectrum p of (rawData, p1) \<Rightarrow>
           (let currentRawVolume = getRawVolume waveform p1;
                v1 = v\<lparr>rawVolume := currentRawVolume\<rparr>
            in case getFrequencyBands spectrum p1 of (bands, p2) \<Rightarrow>
                 (let hasSignal = (\<exists>val\<in>set bands. val > 1);
                      maxLevel = real (Max (set bands)) / 255;
                      scaledLevel = min 1 (sqrt maxLevel);
                      v2 = (if hasSignal
                            then v1\<lparr>audioLevel := scaledLevel, audioData_state := map real bands\<rparr>
                            else v1\<lparr>audioData_state := zeros 8\<rparr>)
                  in (v2\<lparr>animationFrameRef := Some timer\<rparr>, p2))))
      else (v, p))"

section \<open>CloudParticles: the quantities shared by all points of one frame\<close>

text \<open>\<open>audioData\<close> is the band array handed to the component (a \<open>number[]\<close>).\<close>

definition breathingEffect :: "real \<Rightarrow> real" where
  "breathingEffect time = sin (time * 0.15) * 0.05"

definition baseMovementFactor :: "real \<Rightarrow> real" where
  "baseMovementFactor time = 0.1 + breathingEffect time"

definition lowFreqIntensity :: "real \<Rightarrow> real list \<Rightarrow> real" where
  "lowFreqIntensity sensitivity audioData =
     sensitivity * reduce_sum (slice_array audioData 0 2) / (2 * 255)"

definition midFreqIntensity :: "real \<Rightarrow> real list \<Rightarrow> real" where
  "midFreqIntensity sensitivity audioData =
     sensitivity * reduce_sum (slice_array audioData 2 5) / (3 * 255)"

definition highFreqIntensity :: "real \<Rightarrow> real list \<Rightarrow> real" where
  "highFreqIntensity sensitivity audioData =
     sensitivity * reduce_sum (slice_from audioData 5) / (3 * 255)"

definition verticalBias :: "real \<Rightarrow> real list \<Rightarrow> real" where
  "verticalBias sensitivity audioData =
     (lowFreqIntensity sensitivity audioData - highFreqIntensity sensitivity audioData) * 0.3"

definition radialBias :: "real \<Rightarrow> real list \<Rightarrow> real" where
  "radialBias sensitivity audioData =
     (highFreqIntensity sensitivity audioData - lowFreqIntensity sensitivity audioData) * 0.3"

definition circularMotionSpeed :: "real \<Rightarrow> real list \<Rightarrow> real" where
  "circularMotionSpeed sensitivity audioData = 0.05 + midFreqIntensity sensitivity audioData * 0.2"

definition circularMotionDirection :: "real \<Rightarrow> real list \<Rightarrow> real" where
  "circularMotionDirection sensitivity audioData =
     (if midFreqIntensity sensitivity audioData > 0.5 then 1 else - 1)"

section \<open>CloudParticles: one point\<close>

text \<open>A \<open>THREE.Vector3\<close>, and three consecutive entries of a position or colour attribute.
  \<open>normalize\<close> is \<open>divideScalar(length() || 1)\<close>, and \<open>divideScalar(s)\<close> is
  \<open>multiplyScalar(1 / s)\<close>.\<close>

type_synonym Vector3 = "real \<times> real \<times> real"

fun vlength :: "Vector3 \<Rightarrow> real" where
  "vlength (x, y, z) = sqrt (x * x + y * y + z * z)"

fun multiplyScalar :: "real \<Rightarrow> Vector3 \<Rightarrow> Vector3" where
  "multiplyScalar s (x, y, z) = (x * s, y * s, z * s)"

definition normalize :: "Vector3 \<Rightarrow> Vector3" where
  "normalize v = multiplyScalar (1 / (if vlength v = 0 then 1 else vlength v)) v"

definition bandIndex :: "real list \<Rightarrow> Vector3 \<Rightarrow> int" where
  "bandIndex audioData pos =
     min \<lfloor>(vlength pos / 20) * real (length audioData)\<rfloor> (int (length audioData) - 1)"

text \<open>The band array always has eight entries, and the distance is not negative, so the
  index below is one of 0..7.\<close>

definition audioIntensity :: "real \<Rightarrow> real list \<Rightarrow> Vector3 \<Rightarrow> real" where
  "audioIntensity sensitivity audioData pos =
     sensitivity * (audioData ! nat (bandIndex audioData pos)) / 255"

fun noise :: "real \<Rightarrow> nat \<Rightarrow> Vector3 \<Rightarrow> real" where
  "noise time i (x, y, z) = sin (time * 0.2 + real i * 0.005 + x * 0.05 + y * 0.05) * 0.02"

definition audioFactor :: "real \<Rightarrow> real list \<Rightarrow> Vector3 \<Rightarrow> real" where
  "audioFactor sensitivity audioData pos = (audioIntensity sensitivity audioData pos) ^ 3 * 0.8"

definition movement :: "real \<Rightarrow> real \<Rightarrow> real list \<Rightarrow> nat \<Rightarrow> Vector3 \<Rightarrow> real" where
  "movement time sensitivity audioData i pos =
     baseMovementFactor time + audioFactor sensitivity audioData pos + noise time i pos"

definition biasedDirection :: "real \<Rightarrow> real list \<Rightarrow> Vector3 \<Rightarrow> Vector3" where
  "biasedDirection sensitivity audioData pos =
     (case normalize pos of (dx, dy, dz) \<Rightarrow>
        (let direction = (dx, dy + verticalBias sensitivity audioData, dz)
         in if radialBias sensitivity audioData > 0
            then multiplyScalar (1 + radialBias sensitivity audioData * 0.2) direction
            else multiplyScalar (1 / (1 - radialBias sensitivity audioData * 0.2)) direction))"

text \<open>The position of a point after the directional movement, the swirl in the XZ plane
  and the rotation about the vertical axis, before the bounds are enforced.\<close>

fun movePoint :: "real \<Rightarrow> real \<Rightarrow> real list \<Rightarrow> nat \<Rightarrow> Vector3 \<Rightarrow> Vector3" where
  "movePoint time sensitivity audioData i (x, y, z) =
     (case biasedDirection sensitivity audioData (x, y, z) of (dx, dy, dz) \<Rightarrow>
        (let intensity = audioIntensity sensitivity audioData (x, y, z);
             m = movement time sensitivity audioData i (x, y, z);
             px = x + dx * m * 0.05;
             py = y + dy * m * 0.05;
             pz = z + dz * m * 0.05;
             xzDistance = sqrt (x * x + z * z);
             swirl = (intensity > 0.1 \<and> xzDistance > 0.1);
             normalizedX = x / xzDistance;
             normalizedZ = z / xzDistance;
             circularForce = circularMotionSpeed sensitivity audioData
                               * circularMotionDirection sensitivity audioData;
             px' = (if swirl then px + - normalizedZ * circularForce * m else px);
             pz' = (if swirl then pz + normalizedX * circularForce * m else pz);
             rotationSpeed = 0.0005 + (intensity * intensity) * 0.01;
             cosR = cos rotationSpeed;
             sinR = sin rotationSpeed;
             nx = px' * cosR - pz' * sinR
         in (nx, py, px' * sinR + pz' * cosR)))"

text \<open>"Keep particles within bounds".\<close>

definition keepWithinBounds :: "Vector3 \<Rightarrow> Vector3" where
  "keepWithinBounds pos =
     (let newDistance = vlength pos
      in if newDistance > 20 then multiplyScalar 10 (normalize pos) else pos)"

definition newPosition :: "real \<Rightarrow> real \<Rightarrow> real list \<Rightarrow> nat \<Rightarrow> Vector3 \<Rightarrow> Vector3" where
  "newPosition time sensitivity audioData i pos =
     keepWithinBounds (movePoint time sensitivity audioData i pos)"

definition newColor :: "real \<Rightarrow> real list \<Rightarrow> Vector3 \<Rightarrow> Vector3" where
  "newColor sensitivity audioData pos =
     (let intensity = audioIntensity sensitivity audioData pos
      in (0.2 + intensity * 0.7, 0.1 + intensity * 0.2, 0.5 + intensity * 0.3))"

text \<open>\<open>random\<close> is the value \<open>Math.random()\<close> returns for this point in this frame.\<close>

definition newSize :: "real \<Rightarrow> real \<Rightarrow> real list \<Rightarrow> Vector3 \<Rightarrow> real" where
  "newSize random sensitivity audioData pos =
     (0.05 + random * 0.05) * (1 + audioIntensity sensitivity audioData pos * 1.5)"

section \<open>CloudParticles: the frame callback\<close>

text \<open>The three buffer attributes of the geometry. The loop runs over
  \<open>positions.count\<close> and writes entry \<open>i\<close> of each attribute in place; a write past the end
  of a typed array is ignored, as \<open>xs[i := v]\<close> is.\<close>

record particles =
  positions :: "Vector3 list"
  colors :: "Vector3 list"
  sizes :: "real list"

definition animatePoint ::
  "(nat \<Rightarrow> real) \<Rightarrow> real \<Rightarrow> real \<Rightarrow> real list \<Rightarrow> nat \<Rightarrow> particles \<Rightarrow> particles" where
  "animatePoint random time sensitivity audioData i st =
     (let pos = positions st ! i
      in st\<lparr>positions := (positions st)[i := newPosition time sensitivity audioData i pos],
            colors := (colors st)[i := newColor sensitivity audioData pos],
            sizes := (sizes st)[i := newSize (random i) sensitivity audioData pos]\<rparr>)"

definition particlesFrame ::
  "(nat \<Rightarrow> real) \<Rightarrow> real \<Rightarrow> real \<Rightarrow> real list \<Rightarrow> particles \<Rightarrow> particles" where
  "particlesFrame random time sensitivity audioData st =
     fold (animatePoint random time sensitivity audioData) [0..<length (positions st)] st"

section \<open>EnergyDisturbance: the frame callback\<close>

record TorusKnotGeometry =
  knotRadius :: real
  tube :: real
  tubularSegments :: nat
  radialSegments :: nat
  knotP :: int
  knotQ :: int

record mesh =
  meshScale :: Vector3
  meshRotation :: Vector3
  lastRotation :: Vector3
  emissiveIntensity :: real
  materialColor :: Vector3
  materialEmissive :: Vector3
  geometry :: TorusKnotGeometry

text \<open>The mesh as the component declares it: the torus knot \<open>[1, 0.3, 100, 16, 2, 3]\<close>, the
  material with \<open>color="#4a00e0"\<close>, \<open>emissive="#220066"\<close> and \<open>emissiveIntensity=0.3\<close>
  (the channels as fractions of 255), unit scale, no rotation, and \<open>lastRotationRef\<close> at
  zero.\<close>

definition initialMesh :: mesh where
  "initialMesh =
     \<lparr>meshScale = (1, 1, 1), meshRotation = (0, 0, 0), lastRotation = (0, 0, 0),
      emissiveIntensity = 0.3, materialColor = (74 / 255, 0, 224 / 255),
      materialEmissive = (34 / 255, 0, 102 / 255),
      geometry = \<lparr>knotRadius = 1, tube = 0.3, tubularSegments = 100, radialSegments = 16,
                    knotP = 2, knotQ = 3\<rparr>\<rparr>"

text \<open>The remainder operator \<open>%\<close> of the host language: the quotient is truncated
  towards zero.\<close>

definition remainder :: "real \<Rightarrow> real \<Rightarrow> real" where
  "remainder a b =
     a - b * real_of_int (if a / b \<ge> 0 then \<lfloor>a / b\<rfloor> else \<lceil>a / b\<rceil>)"

definition avgIntensity :: "real \<Rightarrow> real list \<Rightarrow> real" where
  "avgIntensity sensitivity audioData =
     sensitivity * reduce_sum audioData / real (length audioData) / 255"

definition meshBreathingEffect :: "real \<Rightarrow> real" where
  "meshBreathingEffect time = (sin (time * 0.1) + 1) * 0.04"

definition meshFrame :: "real \<Rightarrow> real \<Rightarrow> real list \<Rightarrow> mesh \<Rightarrow> mesh" where
  "meshFrame time sensitivity audioData m =
     (let avg = avgIntensity sensitivity audioData;
          low = lowFreqIntensity sensitivity audioData;
          high = highFreqIntensity sensitivity audioData;
          mid = midFreqIntensity sensitivity audioData;
          breathing = meshBreathingEffect time;
          pulseScale = 1 + breathing + (avg * avg) * 0.8;
          xRotationDir = (if low > high then 1 else - 1);
          yRotationDir = (if mid > 0.3 then 1 else - 1);
          zRotationDir = (if high > low then 1 else - 1);
          rotationBase = 0.001;
          rotationAudioFactor = avg ^ 2 * 0.05
      in case (lastRotation m, meshRotation m) of ((lx, ly, lz), (rx, ry, rz)) \<Rightarrow>
        (let lx' = lx * 0.95 + (rotationBase + rotationAudioFactor) * 0.05 * xRotationDir;
             ly' = ly * 0.95 + (rotationBase + rotationAudioFactor * 1.1) * 0.05 * yRotationDir;
             lz' = lz * 0.95 + (rotationBase + high * 0.02) * zRotationDir;
             baseEmissive = 0.2 + breathing;
             r = 0.3 + 0.1 * sin (time * 0.3) + avg * 0.5;
             g = 0.1 + avg * 0.3;
             b = 0.6 + 0.1 * cos (time * 0.3) + avg * 0.4;
             p = round (2 + low * 4);
             q = round (3 + high * 4)
         in m\<lparr>meshScale := (pulseScale, pulseScale, pulseScale),
               lastRotation := (lx', ly', lz'),
               meshRotation := (rx + lx', ry + ly', rz + lz'),
               emissiveIntensity := baseEmissive + avg * 2.5,
               materialColor := (r, g, b),
               materialEmissive := (r * 0.5, g * 0.5, b * 0.5),
               geometry :=
                 (if remainder time 2 < 0.1 \<and> avg > 0.2
                  then \<lparr>knotRadius = 1, tube = 0.3 + avg * 0.15, tubularSegments = 100,
                        radialSegments = 16, knotP = p, knotQ = q\<rparr>
                  else geometry m)\<rparr>))"

text \<open>One rendered frame: both callbacks, on the same clock, band array and sensitivity.\<close>

definition renderFrame ::
  "(nat \<Rightarrow> real) \<Rightarrow> real \<Rightarrow> real \<Rightarrow> real list \<Rightarrow> particles \<times> mesh \<Rightarrow> particles \<times> mesh" where
  "renderFrame random time sensitivity audioData scene =
     (particlesFrame random time sensitivity audioData (fst scene),
      meshFrame time sensitivity audioData (snd scene))"

section \<open>The raw volume\<close>

lemma foldl_plus_sum_list:
  "foldl (\<lambda>acc b. acc + f b) a xs = a + sum_list (map f xs)"
  by (induction xs arbitrary: a) (simp_all add: add.assoc)

lemma unat_byte_le: "unat (b::byte) \<le> 255"
proof -
  have "unat b < 2 ^ LENGTH(8)" by (rule unsigned_less)
  then show ?thesis by simp
qed




lemma sumOfSquares_sum_list:
  "sumOfSquares buf = (\<Sum>b\<leftarrow>buf. (real (unat b) / 128 - 1)\<^sup>2)"
  by (simp add: sumOfSquares_def foldl_plus_sum_list amplitude_def power2_eq_square)









section \<open>Directional bias of the particle field\<close>

text \<open>
  Claim C8. For any sensitivity above 0, the band array \<open>[255,0,0,0,0,0,0,0]\<close> gives a
  strictly positive \<open>verticalBias\<close> and the band array \<open>[0,0,0,0,0,0,0,255]\<close> gives a
  strictly positive \<open>radialBias\<close>.
\<close>

theorem synthetic_bands_bias:
  "0 < s \<Longrightarrow>
     verticalBias s [255, 0, 0, 0, 0, 0, 0, 0] = 0.15 * s
     \<and> verticalBias s [255, 0, 0, 0, 0, 0, 0, 0] > 0
     \<and> radialBias s [0, 0, 0, 0, 0, 0, 0, 255] = 0.1 * s
     \<and> radialBias s [0, 0, 0, 0, 0, 0, 0, 255] > 0"
  by (simp add: verticalBias_def radialBias_def lowFreqIntensity_def highFreqIntensity_def
        slice_array_def slice_from_def reduce_sum_def)

theorem synthetic_bands_bias_witness:
  "(0::real) < 1 \<and> verticalBias 1 [255, 0, 0, 0, 0, 0, 0, 0] > 0
     \<and> radialBias 1 [0, 0, 0, 0, 0, 0, 0, 255] > 0"
  using synthetic_bands_bias [of 1] by simp

section \<open>The band boundaries\<close>

lemma length_logSpace: "length (logSpace s e n) = n"
  by (simp add: logSpace_def Let_def)

lemma logSpace_nth:
  "i < n \<Longrightarrow> logSpace s e n ! i = round (exp (ln s + (ln e - ln s) / (real n - 1) * real i))"
  by (simp add: logSpace_def Let_def)

lemma boundary_nth:
  "i < 9 \<Longrightarrow> logSpace 1 e 9 ! i = round (exp (ln e / 8 * real i))"
  by (simp add: logSpace_nth)

lemma boundary_first: "logSpace 1 e 9 ! 0 = 1"
  by (simp add: boundary_nth)

lemma boundary_last: "0 < E \<Longrightarrow> logSpace 1 (real E) 9 ! 8 = int E"
  by (simp add: boundary_nth)

lemma boundary_mono:
  assumes "1 \<le> E" "i \<le> j" "j < 9"
  shows "logSpace 1 (real E) 9 ! i \<le> logSpace 1 (real E) 9 ! j"
proof -
  have "0 \<le> ln (real E)" using assms(1) by simp
  then have "ln (real E) / 8 * real i \<le> ln (real E) / 8 * real j"
    using assms(2) by (simp add: mult_left_mono)
  then have "round (exp (ln (real E) / 8 * real i)) \<le> round (exp (ln (real E) / 8 * real j))"
    by (intro round_mono) simp
  then show ?thesis using assms by (simp add: boundary_nth)
qed

text \<open>The eighth power of a boundary is a power of 800, which pins the boundary between
  two half-integers.\<close>

lemma round_root:
  fixes k :: int
  assumes "0 < k" "(real_of_int k - 1/2) ^ 8 \<le> 800 ^ i" "(800::real) ^ i < (real_of_int k + 1/2) ^ 8"
  shows "round (exp (ln 800 / 8 * real i)) = k"
proof -
  let ?x = "exp (ln 800 / 8 * real i)"
  have p: "?x ^ 8 = 800 ^ i"
  proof -
    have "?x ^ 8 = exp (of_nat 8 * (ln 800 / 8 * real i))" by (simp only: exp_of_nat_mult)
    also have "\<dots> = exp (real i * ln 800)" by (simp add: mult.commute)
    also have "\<dots> = exp (ln 800) ^ i" by (simp only: exp_of_nat_mult)
    finally show ?thesis by simp
  qed
  have x0: "0 \<le> ?x" by simp
  have lo: "real_of_int k - 1/2 \<le> ?x"
  proof (rule power_le_imp_le_base [where n = 7])
    show "(real_of_int k - 1/2) ^ Suc 7 \<le> ?x ^ Suc 7" using assms(2) p by simp
    show "0 \<le> ?x" by simp
  qed
  have hi: "?x < real_of_int k + 1/2"
  proof (rule power_less_imp_less_base [where n = 8])
    show "?x ^ 8 < (real_of_int k + 1/2) ^ 8" using assms(3) p by simp
    show "0 \<le> real_of_int k + 1/2" using assms(1) by simp
  qed
  show ?thesis
    by (rule round_unique) (use lo hi in auto)
qed

lemma logSpace_800: "logSpace 1 800 9 = [1, 2, 5, 12, 28, 65, 150, 347, 800]"
proof -
  have r1: "round (exp (ln 800 / 8 * real 1)) = 2" by (rule round_root) (simp_all add: power_divide)
  have r2: "round (exp (ln 800 / 8 * real 2)) = 5" by (rule round_root) (simp_all add: power_divide)
  have r3: "round (exp (ln 800 / 8 * real 3)) = 12" by (rule round_root) (simp_all add: power_divide)
  have r4: "round (exp (ln 800 / 8 * real 4)) = 28" by (rule round_root) (simp_all add: power_divide)
  have r5: "round (exp (ln 800 / 8 * real 5)) = 65" by (rule round_root) (simp_all add: power_divide)
  have r6: "round (exp (ln 800 / 8 * real 6)) = 150" by (rule round_root) (simp_all add: power_divide)
  have r7: "round (exp (ln 800 / 8 * real 7)) = 347" by (rule round_root) (simp_all add: power_divide)
  have r8: "round (exp (ln 800 / 8 * real 8)) = 800" by simp
  have l: "[0..<9] = [0, 1, 2, 3, 4, 5, 6, 7, 8]" by (simp add: upt_rec)
  show ?thesis
    unfolding logSpace_def Let_def l using r1 r2 r3 r4 r5 r6 r7 r8
    by simp
qed

section \<open>The slices of the bands\<close>

lemma reduce_sum_sum_list: "reduce_sum xs = sum_list xs"
proof -
  have "foldl (\<lambda>sum val. sum + val) a xs = a + sum_list xs" for a :: "'a::monoid_add"
    by (induction xs arbitrary: a) (simp_all add: add.assoc)
  then show ?thesis by (simp add: reduce_sum_def)
qed

lemma no_signal_iff: "reduce_sum (map unat d) = 0 \<longleftrightarrow> (\<forall>b\<in>set d. b = 0)"
  by (simp add: reduce_sum_sum_list unat_eq_0)

lemma usefulRange_eq:
  "slice_array d (int startBin) (int (endBin d)) = take (endBin d - 1) (drop 1 d)"
  by (cases d) (simp_all add: slice_array_def startBin_def endBin_def Let_def nat_diff_distrib')

lemma bandData_eq:
  assumes "1 \<le> lo" "lo \<le> hi" "hi \<le> int (endBin d)"
  shows "slice_array (slice_array d (int startBin) (int (endBin d))) (lo - int startBin) (hi - int startBin)
           = take (nat hi - nat lo) (drop (nat lo) d)"
proof -
  have E: "endBin d \<le> length d" by (simp add: endBin_def)
  let ?u = "take (endBin d - 1) (drop 1 d)"
  have len: "length ?u = endBin d - 1" using E by simp
  have "slice_array ?u (lo - 1) (hi - 1) = take (nat (hi - 1) - nat (lo - 1)) (drop (nat (lo - 1)) ?u)"
    using assms len by (simp add: slice_array_def Let_def min_def nat_diff_distrib')
  also have "\<dots> = take (nat hi - nat lo) (drop (nat lo - 1) ?u)"
    using assms by (simp add: nat_diff_distrib')
  also have "\<dots> = take (nat hi - nat lo) (take (endBin d - nat lo) (drop (nat lo) d))"
    using assms by (simp add: drop_take nat_diff_distrib')
  also have "\<dots> = take (nat hi - nat lo) (drop (nat lo) d)"
  proof -
    have "nat hi \<le> endBin d" using assms by simp
    then have "min (nat hi - nat lo) (endBin d - nat lo) = nat hi - nat lo" by simp
    then show ?thesis by simp
  qed
  finally have "slice_array ?u (lo - 1) (hi - 1) = take (nat hi - nat lo) (drop (nat lo) d)" .
  moreover have "slice_array d 1 (int (endBin d)) = ?u"
    using usefulRange_eq [of d] by (simp add: startBin_def)
  ultimately show ?thesis by (simp add: startBin_def)
qed

lemma set_take_drop_nth:
  "set (take m (drop l xs)) = {xs ! j | j. l \<le> j \<and> j < l + m \<and> j < length xs}"
proof (intro set_eqI iffI)
  fix x assume "x \<in> set (take m (drop l xs))"
  then obtain k where k: "k < length (take m (drop l xs))" "take m (drop l xs) ! k = x"
    by (auto simp: in_set_conv_nth)
  then have "x = xs ! (l + k)" "l + k < l + m" "l + k < length xs" by auto
  then show "x \<in> {xs ! j | j. l \<le> j \<and> j < l + m \<and> j < length xs}"
    by (intro CollectI exI [of _ "l + k"]) simp
next
  fix x assume "x \<in> {xs ! j | j. l \<le> j \<and> j < l + m \<and> j < length xs}"
  then obtain j where j: "x = xs ! j" "l \<le> j" "j < l + m" "j < length xs" by blast
  then have "j - l < length (take m (drop l xs))" "take m (drop l xs) ! (j - l) = x" by auto
  then show "x \<in> set (take m (drop l xs))" by (metis nth_mem)
qed

lemma bandValue_zero_iff: "bandValue xs = 0 \<longleftrightarrow> (\<forall>b\<in>set xs. b = 0)"
proof (cases "xs = []")
  case True
  then show ?thesis by (simp add: bandValue_def)
next
  case False
  then have "Max (unat ` set xs) \<le> 0 \<longleftrightarrow> (\<forall>a\<in>unat ` set xs. a \<le> 0)"
    by (intro Max_le_iff) simp_all
  then show ?thesis using False by (simp add: bandValue_def unat_eq_0)
qed

lemma bandValue_le: "bandValue xs \<le> 255"
proof (cases "xs = []")
  case True
  then show ?thesis by (simp add: bandValue_def)
next
  case False
  then have "Max (unat ` set xs) \<le> 255 \<longleftrightarrow> (\<forall>a\<in>unat ` set xs. a \<le> 255)"
    by (intro Max_le_iff) simp_all
  then show ?thesis using False by (simp add: bandValue_def unat_byte_le)
qed

lemma bandValue_Max:
  "xs \<noteq> [] \<Longrightarrow> bandValue xs = Max (unat ` set xs)"
  by (simp add: bandValue_def)

lemma chain_cover:
  fixes f :: "nat \<Rightarrow> int"
  shows "f 0 \<le> j \<Longrightarrow> j < f n \<Longrightarrow> \<exists>i<n. f i \<le> j \<and> j < f (Suc i)"
proof (induction n)
  case 0
  then show ?case by simp
next
  case (Suc n)
  show ?case
  proof (cases "j < f n")
    case True
    with Suc obtain i where "i < n" "f i \<le> j" "j < f (Suc i)" by blast
    then show ?thesis by (intro exI [of _ i]) simp
  next
    case False
    with Suc.prems show ?thesis by (intro exI [of _ n]) simp
  qed
qed

lemma endBin_le_length: "endBin d \<le> length d"
  by (simp add: endBin_def)

lemma signal_endBin_pos:
  assumes "reduce_sum (map unat d) > 0"
  shows "1 \<le> endBin d"
proof -
  have "d \<noteq> []" using assms by (auto simp: reduce_sum_sum_list)
  then show ?thesis by (cases d) (simp_all add: endBin_def)
qed

lemma boundaries_ordered:
  assumes "1 \<le> E" "i < 8"
  shows "1 \<le> logSpace 1 (real E) 9 ! i"
    and "logSpace 1 (real E) 9 ! i \<le> logSpace 1 (real E) 9 ! (i + 1)"
    and "logSpace 1 (real E) 9 ! (i + 1) \<le> int E"
proof -
  have "logSpace 1 (real E) 9 ! 0 \<le> logSpace 1 (real E) 9 ! i"
    using assms by (intro boundary_mono) simp_all
  then show "1 \<le> logSpace 1 (real E) 9 ! i" by (simp add: boundary_first)
  show "logSpace 1 (real E) 9 ! i \<le> logSpace 1 (real E) 9 ! (i + 1)"
    using assms by (intro boundary_mono) simp_all
  have "logSpace 1 (real E) 9 ! (i + 1) \<le> logSpace 1 (real E) 9 ! 8"
    using assms by (intro boundary_mono) simp_all
  then show "logSpace 1 (real E) 9 ! (i + 1) \<le> int E"
    using assms(1) by (simp add: boundary_last)
qed

lemma frequencyBands_signal:
  assumes "reduce_sum (map unat d) > 0"
  shows "frequencyBands d =
           map (\<lambda>i. bandValue
                  (take (nat (logSpace 1 (real (endBin d)) 9 ! (i + 1))
                           - nat (logSpace 1 (real (endBin d)) 9 ! i))
                     (drop (nat (logSpace 1 (real (endBin d)) 9 ! i)) d))) [0..<8]"
proof -
  have E: "1 \<le> endBin d" using assms by (rule signal_endBin_pos)
  have "slice_array (slice_array d (int startBin) (int (endBin d)))
            (logSpace 1 (real (endBin d)) 9 ! i - int startBin)
            (logSpace 1 (real (endBin d)) 9 ! (i + 1) - int startBin)
        = take (nat (logSpace 1 (real (endBin d)) 9 ! (i + 1))
                  - nat (logSpace 1 (real (endBin d)) 9 ! i))
            (drop (nat (logSpace 1 (real (endBin d)) 9 ! i)) d)"
    if "i < 8" for i
    using boundaries_ordered [OF E that] by (intro bandData_eq)
  then show ?thesis
    using assms by (simp add: frequencyBands_def Let_def totalBands_def startBin_def)
qed

lemma frequencyBands_silent:
  "\<not> reduce_sum (map unat d) > 0 \<Longrightarrow> frequencyBands d = zeros 8"
  by (simp add: frequencyBands_def Let_def totalBands_def)

lemma length_frequencyBands: "length (frequencyBands d) = 8"
  by (cases "reduce_sum (map unat d) > 0")
     (simp_all add: frequencyBands_signal frequencyBands_silent zeros_def)

lemma frequencyBands_le: "v \<in> set (frequencyBands d) \<Longrightarrow> v \<le> 255"
  by (cases "reduce_sum (map unat d) > 0")
     (auto simp: frequencyBands_signal frequencyBands_silent zeros_def bandValue_le)

lemma frequencyBands_zero_iff:
  "frequencyBands d = zeros 8 \<longleftrightarrow> (\<forall>j. startBin \<le> j \<and> j < endBin d \<longrightarrow> d ! j = 0)"
proof (cases "reduce_sum (map unat d) > 0")
  case False
  then have z: "\<forall>b\<in>set d. b = 0" by (simp add: no_signal_iff)
  have "d ! j = 0" if "j < endBin d" for j
  proof -
    have "j < length d" using that endBin_le_length [of d] by simp
    then show ?thesis using z by simp
  qed
  then show ?thesis using False by (simp add: frequencyBands_silent)
next
  case True
  define B where "B = (\<lambda>i. logSpace 1 (real (endBin d)) 9 ! i)"
  have E: "1 \<le> endBin d" using True by (rule signal_endBin_pos)
  have ord: "1 \<le> B i" "B i \<le> B (i + 1)" "B (i + 1) \<le> int (endBin d)" if "i < 8" for i
    using boundaries_ordered [OF E that] by (simp_all add: B_def)
  have "frequencyBands d = zeros 8 \<longleftrightarrow>
          (\<forall>i<8. bandValue (take (nat (B (i + 1)) - nat (B i)) (drop (nat (B i)) d)) = 0)"
    by (simp add: frequencyBands_signal [OF True] zeros_def list_eq_iff_nth_eq B_def)
  also have "\<dots> \<longleftrightarrow> (\<forall>i<8. \<forall>j. B i \<le> int j \<and> int j < B (i + 1) \<longrightarrow> d ! j = 0)"
  proof (intro all_cong1 imp_cong refl)
    fix i :: nat assume i: "i < 8"
    have le: "nat (B (i + 1)) \<le> length d"
      using ord(3) [OF i] endBin_le_length [of d] by simp
    show "bandValue (take (nat (B (i + 1)) - nat (B i)) (drop (nat (B i)) d)) = 0
            \<longleftrightarrow> (\<forall>j. B i \<le> int j \<and> int j < B (i + 1) \<longrightarrow> d ! j = 0)"
    proof
      assume "bandValue (take (nat (B (i + 1)) - nat (B i)) (drop (nat (B i)) d)) = 0"
      then have z: "\<forall>b\<in>set (take (nat (B (i + 1)) - nat (B i)) (drop (nat (B i)) d)). b = 0"
        by (simp add: bandValue_zero_iff)
      show "\<forall>j. B i \<le> int j \<and> int j < B (i + 1) \<longrightarrow> d ! j = 0"
      proof (intro allI impI)
        fix j assume j: "B i \<le> int j \<and> int j < B (i + 1)"
        then have "nat (B i) \<le> j" "j < nat (B i) + (nat (B (i + 1)) - nat (B i))" "j < length d"
          using le ord [OF i] by linarith+
        then have "d ! j \<in> set (take (nat (B (i + 1)) - nat (B i)) (drop (nat (B i)) d))"
          unfolding set_take_drop_nth by blast
        then show "d ! j = 0" using z by blast
      qed
    next
      assume a: "\<forall>j. B i \<le> int j \<and> int j < B (i + 1) \<longrightarrow> d ! j = 0"
      have "b = 0" if "b \<in> set (take (nat (B (i + 1)) - nat (B i)) (drop (nat (B i)) d))" for b
      proof -
        from that obtain j where j: "b = d ! j" "nat (B i) \<le> j"
            "j < nat (B i) + (nat (B (i + 1)) - nat (B i))" "j < length d"
          unfolding set_take_drop_nth by blast
        then have "B i \<le> int j \<and> int j < B (i + 1)" using ord [OF i] by linarith
        then show ?thesis using a j(1) by blast
      qed
      then show "bandValue (take (nat (B (i + 1)) - nat (B i)) (drop (nat (B i)) d)) = 0"
        by (simp add: bandValue_zero_iff)
    qed
  qed
  also have "\<dots> \<longleftrightarrow> (\<forall>j. startBin \<le> j \<and> j < endBin d \<longrightarrow> d ! j = 0)"
  proof (intro iffI allI impI)
    fix j assume a: "\<forall>i<8. \<forall>j. B i \<le> int j \<and> int j < B (i + 1) \<longrightarrow> d ! j = 0"
      and j: "startBin \<le> j \<and> j < endBin d"
    have "B 0 \<le> int j" using j by (simp add: B_def boundary_first startBin_def)
    moreover have "int j < B 8" using j E by (simp add: B_def boundary_last)
    ultimately obtain i where "i < 8" "B i \<le> int j" "int j < B (Suc i)"
      using chain_cover [of B "int j" 8] by blast
    then show "d ! j = 0" using a by simp
  next
    fix i j assume a: "\<forall>j. startBin \<le> j \<and> j < endBin d \<longrightarrow> d ! j = 0"
      and i: "i < 8" and j: "B i \<le> int j \<and> int j < B (i + 1)"
    have "startBin \<le> j" "j < endBin d" using ord [OF i] j by (simp_all add: startBin_def)
    then show "d ! j = 0" using a by blast
  qed
  finally show ?thesis .
qed

lemma take_drop_map_nth:
  "hi \<le> length d \<Longrightarrow> take (hi - lo) (drop lo d) = map ((!) d) [lo..<hi]"
  by (rule nth_equalityI) simp_all

lemma endBin_800: "800 \<le> length d \<Longrightarrow> endBin d = 800"
  by (simp add: endBin_def)

lemma boundaries_strict:
  assumes "i < 8"
  shows "[1, 2, 5, 12, 28, 65, 150, 347, 800 :: int] ! i
           < [1, 2, 5, 12, 28, 65, 150, 347, 800] ! (i + 1)"
proof -
  have "i \<in> {0, 1, 2, 3, 4, 5, 6, 7}" using assms by auto
  then show ?thesis by (elim insertE) simp_all
qed

lemma frequencyBands_peak:
  assumes len: "800 \<le> length d" and i: "i < 8"
  shows "frequencyBands d ! i =
           Max (set (map (\<lambda>j. unat (d ! j))
                  [nat ([1, 2, 5, 12, 28, 65, 150, 347, 800] ! i)
                     ..< nat ([1, 2, 5, 12, 28, 65, 150, 347, 800] ! (i + 1))]))"
proof -
  define lo where "lo = nat ([1, 2, 5, 12, 28, 65, 150, 347, 800] ! i)"
  define hi where "hi = nat ([1, 2, 5, 12, 28, 65, 150, 347, 800] ! (i + 1))"
  have B: "logSpace 1 (real (endBin d)) 9 = [1, 2, 5, 12, 28, 65, 150, 347, 800]"
    using len by (simp add: endBin_800 logSpace_800)
  have "1 \<le> logSpace 1 (real 800) 9 ! i"
    using i by (intro boundaries_ordered) simp_all
  then have "0 \<le> [1, 2, 5, 12, 28, 65, 150, 347, 800 :: int] ! i"
    by (simp only: logSpace_800 of_nat_numeral)
  with boundaries_strict [OF i] have lt: "lo < hi"
    unfolding lo_def hi_def by linarith
  have "logSpace 1 (real 800) 9 ! (i + 1) \<le> int 800"
    using i by (intro boundaries_ordered) simp_all
  then have "[1, 2, 5, 12, 28, 65, 150, 347, 800 :: int] ! (i + 1) \<le> 800"
    by (simp only: logSpace_800 of_nat_numeral)
  then have hi: "hi \<le> length d"
    unfolding hi_def using len by linarith
  have "frequencyBands d ! i = Max (set (map (\<lambda>j. unat (d ! j)) [lo..<hi]))"
  proof (cases "reduce_sum (map unat d) > 0")
    case True
    have "frequencyBands d ! i = bandValue (take (hi - lo) (drop lo d))"
      unfolding lo_def hi_def using i
      by (simp add: frequencyBands_signal [OF True] B del: nth_Cons_numeral)
    also have "\<dots> = bandValue (map ((!) d) [lo..<hi])"
      by (simp only: take_drop_map_nth [OF hi])
    also have "\<dots> = Max (set (map unat (map ((!) d) [lo..<hi])))"
      using lt by (simp add: bandValue_def del: set_upt)
    finally show ?thesis by (simp add: comp_def del: set_upt)
  next
    case False
    then have z: "\<forall>b\<in>set d. b = 0" by (simp add: no_signal_iff)
    have "map (\<lambda>j. unat (d ! j)) [lo..<hi] = map (\<lambda>j. 0) [lo..<hi]"
    proof (rule map_cong [OF refl])
      fix j assume "j \<in> set [lo..<hi]"
      then have "j < length d" using hi by simp
      then have "d ! j \<in> set d" by (rule nth_mem)
      then have "d ! j = 0" using z by blast
      then show "unat (d ! j) = 0" by simp
    qed
    then have "set (map (\<lambda>j. unat (d ! j)) [lo..<hi]) = {0}"
      using lt by auto
    moreover have "frequencyBands d ! i = 0"
      using i False by (simp add: frequencyBands_silent zeros_def)
    ultimately show ?thesis by (simp del: set_upt set_map)
  qed
  then show ?thesis unfolding lo_def hi_def .
qed

lemma boundary_unrounded: "exp (ln 1 + real 1 * (ln 800 - ln 1) / 8) \<noteq> (2::real)"
proof
  assume a: "exp (ln 1 + real 1 * (ln 800 - ln 1) / 8) = (2::real)"
  have "exp (ln (800::real) / 8) ^ 8 = exp (ln 800)"
    using exp_divide_power_eq [of 8 "ln (800::real)"] by simp
  then have "exp (ln (800::real) / 8) ^ 8 = 800" by simp
  moreover have "exp (ln (800::real) / 8) = 2" using a by simp
  ultimately show False by simp
qed

lemma getFrequencyBands_fst:
  "fst (getFrequencyBands spectrum p) =
     (case (dataArray p, analyser p) of
        (Some d, Some a) \<Rightarrow> frequencyBands (fillBytes spectrum d)
      | _ \<Rightarrow> zeros 8)"
  by (simp add: getFrequencyBands_def Let_def split: option.splits)

section \<open>The frequency bands\<close>

text \<open>
  Claim C1, as stated: the result of \<open>getFrequencyBands\<close> is all zero exactly when the sum
  of the input is zero. It fails for an input whose only energy is in the DC bin (bin 0),
  which the sampled range skips: the sum is 5 and the eight bands are zero.
\<close>

theorem frequencyBands_counterexample:
  "fst (getFrequencyBands (5 # replicate 1023 0)
          (newAudioProcessor\<lparr>analyser := Some 1, dataArray := Some (zeros 1024)\<rparr>)) = zeros 8
   \<and> reduce_sum (map unat (5 # replicate 1023 0 :: byte list)) = 5"
proof -
  have f: "fillBytes (5 # replicate 1023 0) (zeros 1024) = 5 # replicate 1023 0"
    by (simp add: fillBytes_def zeros_def)
  have "(5 # replicate 1023 (0::byte)) ! j = 0" if "startBin \<le> j" "j < 1024" for j
    using that by (cases j) (simp_all add: startBin_def)
  then have "frequencyBands (5 # replicate 1023 0) = zeros 8"
    by (simp add: frequencyBands_zero_iff endBin_def)
  moreover have "reduce_sum (map unat (5 # replicate 1023 0 :: byte list)) = 5"
    by (simp add: reduce_sum_sum_list)
  ultimately show ?thesis
    by (simp add: getFrequencyBands_fst f)
qed

text \<open>
  Claim C1, amended. For every processor and every spectrum, \<open>getFrequencyBands\<close> returns
  eight values, each between 0 and 255. On the refreshed array \<open>d\<close> the result is
  \<open>frequencyBands d\<close>; it is all zero when the sum of \<open>d\<close> is zero, and in general it is all
  zero exactly when every bin of the sampled range, from \<open>startBin\<close> up to but excluding
  \<open>endBin d = min 800 (length d)\<close>, is zero.
\<close>

theorem getFrequencyBands_shape:
  "fst (getFrequencyBands spectrum p) =
     (case (dataArray p, analyser p) of
        (Some d0, Some a) \<Rightarrow> frequencyBands (fillBytes spectrum d0)
      | _ \<Rightarrow> zeros 8)
   \<and> length (fst (getFrequencyBands spectrum p)) = 8
   \<and> (\<forall>v\<in>set (fst (getFrequencyBands spectrum p)). v \<le> 255)
   \<and> length (frequencyBands d) = 8
   \<and> (\<forall>v\<in>set (frequencyBands d). v \<le> 255)
   \<and> (reduce_sum (map unat d) = 0 \<longrightarrow> frequencyBands d = zeros 8)
   \<and> (frequencyBands d = zeros 8 \<longleftrightarrow> (\<forall>j. startBin \<le> j \<and> j < endBin d \<longrightarrow> d ! j = 0))"
proof (intro conjI)
  show "fst (getFrequencyBands spectrum p) =
     (case (dataArray p, analyser p) of
        (Some d0, Some a) \<Rightarrow> frequencyBands (fillBytes spectrum d0)
      | _ \<Rightarrow> zeros 8)"
    by (rule getFrequencyBands_fst)
  show "length (fst (getFrequencyBands spectrum p)) = 8"
    by (simp add: getFrequencyBands_fst length_frequencyBands zeros_def split: option.splits)
  show "\<forall>v\<in>set (fst (getFrequencyBands spectrum p)). v \<le> 255"
    by (auto simp: getFrequencyBands_fst zeros_def split: option.splits dest: frequencyBands_le)
  show "length (frequencyBands d) = 8" by (rule length_frequencyBands)
  show "\<forall>v\<in>set (frequencyBands d). v \<le> 255" by (blast dest: frequencyBands_le)
  show "reduce_sum (map unat d) = 0 \<longrightarrow> frequencyBands d = zeros 8"
    by (simp add: frequencyBands_silent)
  show "frequencyBands d = zeros 8 \<longleftrightarrow> (\<forall>j. startBin \<le> j \<and> j < endBin d \<longrightarrow> d ! j = 0)"
    by (rule frequencyBands_zero_iff)
qed

theorem getFrequencyBands_shape_witness:
  "reduce_sum (map unat [0, 0 :: byte]) = 0 \<and> frequencyBands [0, 0] = zeros 8
   \<and> startBin \<le> 1 \<and> 1 < endBin [0, 9] \<and> [0, 9 :: byte] ! 1 = 9
   \<and> frequencyBands [0, 9] \<noteq> zeros 8"
proof -
  have s: "reduce_sum (map unat [0, 0 :: byte]) = 0" by (simp add: reduce_sum_def)
  have "frequencyBands [0, 0] = zeros 8"
    using getFrequencyBands_shape [where d = "[0, 0]"] s by blast
  moreover have h: "startBin \<le> 1 \<and> 1 < endBin [0, 9] \<and> [0, 9 :: byte] ! 1 = 9"
    by (simp add: startBin_def endBin_def)
  moreover have "frequencyBands [0, 9] \<noteq> zeros 8"
  proof
    assume "frequencyBands [0, 9] = zeros 8"
    then have "\<forall>j. startBin \<le> j \<and> j < endBin [0, 9] \<longrightarrow> [0, 9 :: byte] ! j = 0"
      using getFrequencyBands_shape [where d = "[0, 9]"] by blast
    with h show False by fastforce
  qed
  ultimately show ?thesis using s by blast
qed

text \<open>
  Claim C2, as stated: the boundaries equal \<open>exp (log start + i (log end - log start) / 8)\<close>.
  The code rounds each of them to an integer bin index, so boundary 1 is 2, which the
  unrounded value (the eighth root of 800) is not.
\<close>

theorem bandBoundaries_counterexample:
  "real_of_int (logSpace (real startBin) 800 (totalBands + 1) ! 1)
     \<noteq> exp (ln (real startBin) + real 1 * (ln 800 - ln (real startBin)) / 8)"
proof -
  have "logSpace (real startBin) 800 (totalBands + 1) ! 1 = 2"
    by (simp add: startBin_def totalBands_def logSpace_800)
  then show ?thesis using boundary_unrounded by (simp add: startBin_def)
qed

text \<open>
  Claim C2, amended. With at least 800 bins (the analyser delivers 1024), \<open>endBin\<close> is 800
  and the nine boundaries are the values \<open>exp (log start + i (log end - log start) / 8)\<close>
  rounded to the nearest integer, that is 1, 2, 5, 12, 28, 65, 150, 347, 800 for every
  input; they increase strictly; and band \<open>i\<close> is the maximum of the bins from boundary
  \<open>i\<close> up to but excluding boundary \<open>i + 1\<close>.
\<close>

theorem bandBoundaries_peak:
  "800 \<le> length d \<longrightarrow>
     endBin d = 800
     \<and> logSpace (real startBin) (real (endBin d)) (totalBands + 1)
         = map (\<lambda>i. round (exp (ln (real startBin)
                                  + real i * (ln 800 - ln (real startBin)) / 8))) [0..<9]
     \<and> logSpace (real startBin) (real (endBin d)) (totalBands + 1)
         = [1, 2, 5, 12, 28, 65, 150, 347, 800]
     \<and> sorted_wrt (<) (logSpace (real startBin) (real (endBin d)) (totalBands + 1))
     \<and> (\<forall>i<8. frequencyBands d ! i =
           Max (set (map (\<lambda>j. unat (d ! j))
                  [nat ([1, 2, 5, 12, 28, 65, 150, 347, 800] ! i)
                     ..< nat ([1, 2, 5, 12, 28, 65, 150, 347, 800] ! (i + 1))])))"
proof (intro impI conjI allI)
  assume len: "800 \<le> length d"
  show e: "endBin d = 800" using len by (rule endBin_800)
  show "logSpace (real startBin) (real (endBin d)) (totalBands + 1)
         = map (\<lambda>i. round (exp (ln (real startBin)
                                  + real i * (ln 800 - ln (real startBin)) / 8))) [0..<9]"
    by (simp add: e logSpace_def Let_def startBin_def totalBands_def mult.commute)
  show b: "logSpace (real startBin) (real (endBin d)) (totalBands + 1)
         = [1, 2, 5, 12, 28, 65, 150, 347, 800]"
    by (simp add: e startBin_def totalBands_def logSpace_800)
  show "sorted_wrt (<) (logSpace (real startBin) (real (endBin d)) (totalBands + 1))"
    unfolding b by simp
  fix i :: nat
  assume "i < 8"
  with len show "frequencyBands d ! i =
           Max (set (map (\<lambda>j. unat (d ! j))
                  [nat ([1, 2, 5, 12, 28, 65, 150, 347, 800] ! i)
                     ..< nat ([1, 2, 5, 12, 28, 65, 150, 347, 800] ! (i + 1))]))"
    by (rule frequencyBands_peak)
qed

theorem bandBoundaries_peak_witness:
  "800 \<le> length (0 # 0 # 10 # 20 # replicate 1020 (0::byte))
   \<and> frequencyBands (0 # 0 # 10 # 20 # replicate 1020 0) ! 1 = 20"
proof -
  have len: "800 \<le> length (0 # 0 # 10 # 20 # replicate 1020 (0::byte))" by simp
  have u: "[2..<5] = [2, 3, 4]" by (simp add: upt_rec)
  have b: "nat ([1, 2, 5, 12, 28, 65, 150, 347, 800] ! 1) = 2"
    "nat ([1, 2, 5, 12, 28, 65, 150, 347, 800] ! (1 + 1)) = 5" by simp_all
  have lt: "(1::nat) < 8" by simp
  from bandBoundaries_peak [of "0 # 0 # 10 # 20 # replicate 1020 0"] len
  have a: "\<forall>i<8. frequencyBands (0 # 0 # 10 # 20 # replicate 1020 0) ! i =
           Max (set (map (\<lambda>j. unat ((0 # 0 # 10 # 20 # replicate 1020 (0::byte)) ! j))
                  [nat ([1, 2, 5, 12, 28, 65, 150, 347, 800] ! i)
                     ..< nat ([1, 2, 5, 12, 28, 65, 150, 347, 800] ! (i + 1))]))"
    by blast
  have "frequencyBands (0 # 0 # 10 # 20 # replicate 1020 0) ! 1 =
           Max (set (map (\<lambda>j. unat ((0 # 0 # 10 # 20 # replicate 1020 (0::byte)) ! j))
                  [nat ([1, 2, 5, 12, 28, 65, 150, 347, 800] ! 1)
                     ..< nat ([1, 2, 5, 12, 28, 65, 150, 347, 800] ! (1 + 1))]))"
    by (rule a [rule_format, OF lt])
  also have "\<dots> = 20" unfolding b u by simp
  finally show ?thesis using len by blast
qed

section \<open>The bounds of the particle field\<close>

lemma vlength_nonneg: "0 \<le> vlength v"
  by (cases v) simp

lemma vlength_multiplyScalar: "vlength (multiplyScalar s v) = \<bar>s\<bar> * vlength v"
proof (cases v)
  case (fields a b c)
  have "a * s * (a * s) + b * s * (b * s) + c * s * (c * s) = s\<^sup>2 * (a * a + b * b + c * c)"
    by (simp add: power2_eq_square algebra_simps)
  then show ?thesis using fields by (simp add: real_sqrt_mult)
qed

lemma vlength_normalize: "vlength v \<noteq> 0 \<Longrightarrow> vlength (normalize v) = 1"
  using vlength_nonneg [of v] by (simp add: normalize_def vlength_multiplyScalar)

lemma keepWithinBounds_reset:
  assumes "vlength v > 20"
  shows "keepWithinBounds v = multiplyScalar 10 (normalize v)"
    and "keepWithinBounds v = multiplyScalar (10 / vlength v) v"
    and "vlength (keepWithinBounds v) = 10"
proof -
  show k: "keepWithinBounds v = multiplyScalar 10 (normalize v)"
    using assms by (simp add: keepWithinBounds_def)
  have nz: "vlength v \<noteq> 0" using assms by simp
  have "multiplyScalar 10 (multiplyScalar (1 / vlength v) v) = multiplyScalar (10 / vlength v) v"
    by (cases v) simp
  then show "keepWithinBounds v = multiplyScalar (10 / vlength v) v"
    using nz by (simp add: k normalize_def)
  show "vlength (keepWithinBounds v) = 10"
    using assms by (simp add: k vlength_multiplyScalar vlength_normalize)
qed

lemma keepWithinBounds_le: "vlength (keepWithinBounds v) \<le> 20"
proof (cases "vlength v > 20")
  case True
  then show ?thesis by (simp add: keepWithinBounds_reset(3))
next
  case False
  then show ?thesis by (simp add: keepWithinBounds_def)
qed

lemma keepWithinBounds_inside: "\<not> vlength v > 20 \<Longrightarrow> keepWithinBounds v = v"
  by (simp add: keepWithinBounds_def)

text \<open>The loop touches entry i only in round i.\<close>

lemma length_animatePoint:
  "length (positions (animatePoint r t s a i st)) = length (positions st)"
  "length (colors (animatePoint r t s a i st)) = length (colors st)"
  "length (sizes (animatePoint r t s a i st)) = length (sizes st)"
  by (simp_all add: animatePoint_def Let_def)

lemma fold_animatePoint_positions:
  "n \<le> length (positions st) \<Longrightarrow>
     positions (fold (animatePoint r t s a) [0..<n] st)
       = map (\<lambda>i. newPosition t s a i (positions st ! i)) [0..<n] @ drop n (positions st)"
proof (induction n)
  case 0
  then show ?case by simp
next
  case (Suc n)
  let ?st = "fold (animatePoint r t s a) [0..<n] st"
  have IH: "positions ?st
       = map (\<lambda>i. newPosition t s a i (positions st ! i)) [0..<n] @ drop n (positions st)"
    using Suc by simp
  have n: "n < length (positions st)" using Suc.prems by simp
  have at: "positions ?st ! n = positions st ! n"
    using n by (simp add: IH nth_append)
  have "positions (fold (animatePoint r t s a) [0..<Suc n] st)
          = (positions ?st)[n := newPosition t s a n (positions st ! n)]"
    by (simp add: animatePoint_def Let_def at)
  also have "\<dots> = map (\<lambda>i. newPosition t s a i (positions st ! i)) [0..<n]
                   @ (drop n (positions st))[0 := newPosition t s a n (positions st ! n)]"
    by (simp add: IH list_update_append)
  also have "(drop n (positions st))[0 := newPosition t s a n (positions st ! n)]
               = newPosition t s a n (positions st ! n) # drop (Suc n) (positions st)"
    using n by (simp add: Cons_nth_drop_Suc [symmetric])
  finally show ?case by simp
qed

lemma particlesFrame_positions:
  "positions (particlesFrame r t s a st)
     = map (\<lambda>i. newPosition t s a i (positions st ! i)) [0..<length (positions st)]"
  by (simp add: particlesFrame_def fold_animatePoint_positions)

lemma particlesFrame_position_nth:
  "i < length (positions st) \<Longrightarrow>
     positions (particlesFrame r t s a st) ! i = newPosition t s a i (positions st ! i)"
  by (simp add: particlesFrame_positions)

lemma rotation_keeps_length:
  "(a * cos w - b * sin w) * (a * cos w - b * sin w) + (a * sin w + b * cos w) * (a * sin w + b * cos w)
     = a * a + b * (b::real)"
proof -
  have u: "sin w * sin w + cos w * cos w = 1"
    using sin_cos_squared_add [of w] by (simp add: power2_eq_square)
  have "(a * cos w - b * sin w) * (a * cos w - b * sin w) + (a * sin w + b * cos w) * (a * sin w + b * cos w)
      = (a * a + b * b) * (sin w * sin w + cos w * cos w)"
    by (simp only: algebra_simps)
  then show ?thesis by (simp only: u mult_1_right)
qed

lemma far_point_moved:
  "vlength (movePoint 0 1 [0, 0, 0, 0, 0, 0, 0, 0] 0 (0, 0, 30)) = 30.005"
proof -
  let ?bands = "[0, 0, 0, 0, 0, 0, 0, 0 :: real]"
  have s: "sqrt 900 = 30" by (rule real_sqrt_unique) simp_all
  have bi: "bandIndex ?bands (0, 0, 30) = 7"
    by (simp add: bandIndex_def s)
  have ai: "audioIntensity 1 ?bands (0, 0, 30) = 0"
    by (simp add: audioIntensity_def bi)
  have biases: "verticalBias 1 ?bands = 0" "radialBias 1 ?bands = 0"
    by (simp_all add: verticalBias_def radialBias_def lowFreqIntensity_def highFreqIntensity_def
          slice_array_def slice_from_def reduce_sum_def)
  have dir: "biasedDirection 1 ?bands (0, 0, 30) = (0, 0, 1)"
    by (simp add: biasedDirection_def biases normalize_def s)
  have m: "movement 0 1 ?bands 0 (0, 0, 30) = 0.1"
    by (simp add: movement_def baseMovementFactor_def breathingEffect_def audioFactor_def ai)
  have mp: "movePoint 0 1 ?bands 0 (0, 0, 30)
          = (- (30.005 * sin 0.0005), 0, 30.005 * cos 0.0005)"
    by (simp add: dir ai m Let_def)
  have "(- (30.005 * sin 0.0005)) * (- (30.005 * sin 0.0005)) + 0 * 0
          + (30.005 * cos 0.0005) * (30.005 * cos 0.0005) = 30.005 * (30.005 :: real)"
    using rotation_keeps_length [of 0 "0.0005" "30.005"] by simp
  then have "vlength (movePoint 0 1 ?bands 0 (0, 0, 30)) = sqrt (30.005 * 30.005)"
    by (simp only: mp vlength.simps)
  also have "\<dots> = 30.005" by (rule real_sqrt_unique) (simp_all add: power2_eq_square)
  finally show ?thesis .
qed

text \<open>
  Claim C7. In every frame (with a band array of eight entries), each point whose
  distance from the origin after the movement exceeds 20 is reset to radius 10 along
  its current direction (the moved position scaled by \<open>10 / distance\<close>), every other
  point keeps its moved position, and so after the frame no point is farther than 20
  from the origin.
\<close>

theorem particle_bounds:
  "length audioData = 8 \<longrightarrow>
   (\<forall>i<length (positions st).
      vlength (positions (particlesFrame random time sensitivity audioData st) ! i) \<le> 20
      \<and> (vlength (movePoint time sensitivity audioData i (positions st ! i)) > 20 \<longrightarrow>
           positions (particlesFrame random time sensitivity audioData st) ! i
             = multiplyScalar 10 (normalize (movePoint time sensitivity audioData i (positions st ! i)))
           \<and> positions (particlesFrame random time sensitivity audioData st) ! i
             = multiplyScalar (10 / vlength (movePoint time sensitivity audioData i (positions st ! i)))
                 (movePoint time sensitivity audioData i (positions st ! i))
           \<and> vlength (positions (particlesFrame random time sensitivity audioData st) ! i) = 10)
      \<and> (\<not> vlength (movePoint time sensitivity audioData i (positions st ! i)) > 20 \<longrightarrow>
           positions (particlesFrame random time sensitivity audioData st) ! i
             = movePoint time sensitivity audioData i (positions st ! i)))"
proof (intro impI allI)
  fix i assume "i < length (positions st)"
  then have p: "positions (particlesFrame random time sensitivity audioData st) ! i
      = keepWithinBounds (movePoint time sensitivity audioData i (positions st ! i))"
    by (simp add: particlesFrame_position_nth newPosition_def)
  show "vlength (positions (particlesFrame random time sensitivity audioData st) ! i) \<le> 20
      \<and> (vlength (movePoint time sensitivity audioData i (positions st ! i)) > 20 \<longrightarrow>
           positions (particlesFrame random time sensitivity audioData st) ! i
             = multiplyScalar 10 (normalize (movePoint time sensitivity audioData i (positions st ! i)))
           \<and> positions (particlesFrame random time sensitivity audioData st) ! i
             = multiplyScalar (10 / vlength (movePoint time sensitivity audioData i (positions st ! i)))
                 (movePoint time sensitivity audioData i (positions st ! i))
           \<and> vlength (positions (particlesFrame random time sensitivity audioData st) ! i) = 10)
      \<and> (\<not> vlength (movePoint time sensitivity audioData i (positions st ! i)) > 20 \<longrightarrow>
           positions (particlesFrame random time sensitivity audioData st) ! i
             = movePoint time sensitivity audioData i (positions st ! i))"
    unfolding p
    using keepWithinBounds_le keepWithinBounds_reset keepWithinBounds_inside by metis
qed

theorem particle_bounds_witness:
  "length [0, 0, 0, 0, 0, 0, 0, 0 :: real] = 8
   \<and> 0 < length (positions \<lparr>positions = [(0, 0, 30)], colors = [(0, 0, 0)], sizes = [0]\<rparr>)
   \<and> vlength (movePoint 0 1 [0, 0, 0, 0, 0, 0, 0, 0] 0 (0, 0, 30)) > 20
   \<and> vlength (positions (particlesFrame (\<lambda>i. 0) 0 1 [0, 0, 0, 0, 0, 0, 0, 0]
                 \<lparr>positions = [(0, 0, 30)], colors = [(0, 0, 0)], sizes = [0]\<rparr>) ! 0) = 10"
proof -
  let ?st = "\<lparr>positions = [(0, 0, 30)], colors = [(0, 0, 0)], sizes = [0]\<rparr>"
  have l: "length [0, 0, 0, 0, 0, 0, 0, 0 :: real] = 8" by simp
  have lt: "0 < length (positions ?st)" by simp
  have p: "positions ?st ! 0 = (0, 0, 30)" by simp
  have far: "vlength (movePoint 0 1 [0, 0, 0, 0, 0, 0, 0, 0] 0 (positions ?st ! 0)) > 20"
    unfolding p by (simp only: far_point_moved) simp
  have "vlength (positions (particlesFrame (\<lambda>i. 0) 0 1 [0, 0, 0, 0, 0, 0, 0, 0] ?st) ! 0) = 10"
    using particle_bounds [of "[0, 0, 0, 0, 0, 0, 0, 0]" ?st "\<lambda>i. 0" 0 1] l lt far by blast
  with l lt far [unfolded p] show ?thesis by blast
qed

section \<open>What a frame depends on\<close>

lemma animatePoint_draw:
  "random i = random' i \<Longrightarrow>
     animatePoint random t s a i st = animatePoint random' t s a i st"
  by (simp add: animatePoint_def)

lemma fold_animatePoint_draws:
  "\<forall>i\<in>set is. random i = random' i \<Longrightarrow>
     fold (animatePoint random t s a) is st = fold (animatePoint random' t s a) is st"
proof (induction "is" arbitrary: st)
  case Nil
  then show ?case by simp
next
  case (Cons i "is")
  have "animatePoint random t s a i st = animatePoint random' t s a i st"
    using Cons.prems by (intro animatePoint_draw) simp
  moreover have "\<forall>i\<in>set is. random i = random' i" using Cons.prems by simp
  ultimately show ?case using Cons.IH by simp
qed

lemma animatePoint_independent:
  assumes "positions st = positions st'" "colors st = colors st'"
  shows "positions (animatePoint random t s a i st) = positions (animatePoint random' t s a i st')"
    and "colors (animatePoint random t s a i st) = colors (animatePoint random' t s a i st')"
  using assms by (simp_all add: animatePoint_def Let_def)

lemma fold_animatePoint_independent:
  "positions st = positions st' \<Longrightarrow> colors st = colors st' \<Longrightarrow>
     positions (fold (animatePoint random t s a) is st)
       = positions (fold (animatePoint random' t s a) is st')
     \<and> colors (fold (animatePoint random t s a) is st)
       = colors (fold (animatePoint random' t s a) is st')"
proof (induction "is" arbitrary: st st')
  case Nil
  then show ?case by simp
next
  case (Cons i "is")
  show ?case
    using Cons.IH [OF animatePoint_independent [OF Cons.prems]] by simp
qed

lemma fold_animatePoint_sizes:
  "n \<le> length (positions st) \<Longrightarrow>
     length (sizes (fold (animatePoint random t s a) [0..<n] st)) = length (sizes st)
     \<and> (\<forall>i<length (sizes st).
           sizes (fold (animatePoint random t s a) [0..<n] st) ! i
             = (if i < n then newSize (random i) s a (positions st ! i) else sizes st ! i))"
proof (induction n)
  case 0
  then show ?case by simp
next
  case (Suc n)
  let ?st = "fold (animatePoint random t s a) [0..<n] st"
  have n: "n < length (positions st)" "n \<le> length (positions st)" using Suc.prems by simp_all
  have at: "positions ?st ! n = positions st ! n"
    using n by (simp add: fold_animatePoint_positions nth_append)
  have s: "sizes (fold (animatePoint random t s a) [0..<Suc n] st)
          = (sizes ?st)[n := newSize (random n) s a (positions st ! n)]"
    by (simp add: animatePoint_def Let_def at)
  have len: "length (sizes ?st) = length (sizes st)"
    using Suc.IH [OF n(2)] by blast
  have old: "sizes ?st ! i = (if i < n then newSize (random i) s a (positions st ! i) else sizes st ! i)"
    if "i < length (sizes st)" for i
    using Suc.IH [OF n(2)] that by blast
  show ?case
  proof (intro conjI allI impI)
    show "length (sizes (fold (animatePoint random t s a) [0..<Suc n] st)) = length (sizes st)"
      by (simp only: s length_list_update len)
    fix i assume i: "i < length (sizes st)"
    show "sizes (fold (animatePoint random t s a) [0..<Suc n] st) ! i
            = (if i < Suc n then newSize (random i) s a (positions st ! i) else sizes st ! i)"
    proof (cases "i = n")
      case True
      then show ?thesis using i by (simp only: s) (simp add: len)
    next
      case False
      then have "sizes (fold (animatePoint random t s a) [0..<Suc n] st) ! i = sizes ?st ! i"
        by (simp only: s) simp
      then show ?thesis using old [OF i] False by (simp add: less_Suc_eq)
    qed
  qed
qed

lemma particlesFrame_size_nth:
  assumes "i < length (positions st)" "i < length (sizes st)"
  shows "sizes (particlesFrame random t s a st) ! i = newSize (random i) s a (positions st ! i)"
proof -
  have "sizes (fold (animatePoint random t s a) [0..<length (positions st)] st) ! i
          = (if i < length (positions st) then newSize (random i) s a (positions st ! i)
             else sizes st ! i)"
    using fold_animatePoint_sizes [OF le_refl, where st = st and random = random and t = t and s = s and a = a] assms(2) by blast
  then show ?thesis using assms(1) by (simp only: particlesFrame_def if_True)
qed

text \<open>
  Claim C5, as stated: two runs of one frame from the same state, band array, time and
  sensitivity give the same sizes. The size of a point is drawn with \<open>Math.random\<close> in
  every frame: with the draw 0 the point at the origin gets size 0.05, with the draw
  1/2 it gets 0.075.
\<close>

theorem frame_sizes_counterexample:
  "sizes (fst (renderFrame (\<lambda>i. 0) 0 1 [0, 0, 0, 0, 0, 0, 0, 0]
        (\<lparr>positions = [(0, 0, 0)], colors = [(0, 0, 0)], sizes = [0.1]\<rparr>, initialMesh))) = [0.05]
   \<and> sizes (fst (renderFrame (\<lambda>i. 1 / 2) 0 1 [0, 0, 0, 0, 0, 0, 0, 0]
        (\<lparr>positions = [(0, 0, 0)], colors = [(0, 0, 0)], sizes = [0.1]\<rparr>, initialMesh))) = [0.075]"
proof -
  have bi: "bandIndex [0, 0, 0, 0, 0, 0, 0, 0] (0, 0, 0) = 0"
    by (simp add: bandIndex_def)
  have ai: "audioIntensity 1 [0, 0, 0, 0, 0, 0, 0, 0] (0, 0, 0) = 0"
    by (simp add: audioIntensity_def bi)
  show ?thesis
    by (simp add: renderFrame_def particlesFrame_def animatePoint_def Let_def newSize_def ai)
qed

text \<open>
  Claim C5, amended. Whatever \<open>Math.random\<close> returns, the positions and colours of the
  points and the whole mesh (scale, rotation, smoothed rotation, material, geometry)
  after a frame are the same: they depend on the previous state, the band array, the
  time and the sensitivity only. The size of point \<open>i\<close> is
  \<open>(0.05 + random i * 0.05) * (1 + intensity * 1.5)\<close>, and two runs whose draws agree on
  every point give the same frame altogether.
\<close>

theorem frame_deterministic_up_to_random:
  "positions (fst (renderFrame random time sensitivity audioData scene))
     = positions (fst (renderFrame random' time sensitivity audioData scene))
   \<and> colors (fst (renderFrame random time sensitivity audioData scene))
     = colors (fst (renderFrame random' time sensitivity audioData scene))
   \<and> snd (renderFrame random time sensitivity audioData scene)
     = snd (renderFrame random' time sensitivity audioData scene)
   \<and> (\<forall>i. i < length (positions (fst scene)) \<and> i < length (sizes (fst scene)) \<longrightarrow>
         sizes (fst (renderFrame random time sensitivity audioData scene)) ! i
           = (0.05 + random i * 0.05)
               * (1 + audioIntensity sensitivity audioData (positions (fst scene) ! i) * 1.5))
   \<and> ((\<forall>i<length (positions (fst scene)). random i = random' i) \<longrightarrow>
         renderFrame random time sensitivity audioData scene
           = renderFrame random' time sensitivity audioData scene)"
proof (intro conjI allI impI)
  show "positions (fst (renderFrame random time sensitivity audioData scene))
     = positions (fst (renderFrame random' time sensitivity audioData scene))"
    by (simp add: renderFrame_def particlesFrame_positions)
  show "colors (fst (renderFrame random time sensitivity audioData scene))
     = colors (fst (renderFrame random' time sensitivity audioData scene))"
    using fold_animatePoint_independent [OF refl refl]
    by (simp add: renderFrame_def particlesFrame_def)
  show "snd (renderFrame random time sensitivity audioData scene)
     = snd (renderFrame random' time sensitivity audioData scene)"
    by (simp add: renderFrame_def)
next
  fix i assume "i < length (positions (fst scene)) \<and> i < length (sizes (fst scene))"
  then show "sizes (fst (renderFrame random time sensitivity audioData scene)) ! i
           = (0.05 + random i * 0.05)
               * (1 + audioIntensity sensitivity audioData (positions (fst scene) ! i) * 1.5)"
    by (simp add: renderFrame_def particlesFrame_size_nth newSize_def)
next
  assume "\<forall>i<length (positions (fst scene)). random i = random' i"
  then have "\<forall>i\<in>set [0..<length (positions (fst scene))]. random i = random' i" by simp
  then show "renderFrame random time sensitivity audioData scene
           = renderFrame random' time sensitivity audioData scene"
    by (simp add: renderFrame_def particlesFrame_def fold_animatePoint_draws)
qed

theorem frame_deterministic_up_to_random_witness:
  "(\<lambda>i::nat. 0::real) 0 = (\<lambda>i. if i = 0 then 0 else 1) 0
   \<and> renderFrame (\<lambda>i. 0) 0 1 [0, 0, 0, 0, 0, 0, 0, 0]
        (\<lparr>positions = [(0, 0, 0)], colors = [(0, 0, 0)], sizes = [0.1]\<rparr>, initialMesh)
     = renderFrame (\<lambda>i. if i = 0 then 0 else 1) 0 1 [0, 0, 0, 0, 0, 0, 0, 0]
        (\<lparr>positions = [(0, 0, 0)], colors = [(0, 0, 0)], sizes = [0.1]\<rparr>, initialMesh)"
proof -
  let ?sc = "(\<lparr>positions = [(0, 0, 0)], colors = [(0, 0, 0)], sizes = [0.1]\<rparr>, initialMesh)"
  have h: "\<forall>i<length (positions (fst ?sc)). (\<lambda>i::nat. 0::real) i = (\<lambda>i. if i = 0 then 0 else 1) i"
    by simp
  from frame_deterministic_up_to_random
         [of "\<lambda>i. 0" 0 1 "[0, 0, 0, 0, 0, 0, 0, 0]" ?sc "\<lambda>i. if i = 0 then 0 else 1"] h
  have "renderFrame (\<lambda>i. 0) 0 1 [0, 0, 0, 0, 0, 0, 0, 0] ?sc
     = renderFrame (\<lambda>i. if i = 0 then 0 else 1) 0 1 [0, 0, 0, 0, 0, 0, 0, 0] ?sc"
    by blast
  then show ?thesis by simp
qed

section \<open>Acquisition and cleanup on the audio graph\<close>

text \<open>The methods are unfolded one call at a time below.\<close>

declare createTestTone.simps [simp del] requestMicrophoneAccess.simps [simp del]
  connectAudioElement.simps [simp del] cleanup.simps [simp del] stopListening.simps [simp del]
  updateAudioData.simps [simp del] initAudioContext.simps [simp del] addOscillator.simps [simp del]

lemma four_rounds: "[0..<length frequencies] = [0, 1, 2, 3]"
  by (simp add: frequencies_def upt_rec)

lemma init_fresh:
  "initAudioContext True (emptyGraph, newAudioProcessor) =
     (True, emptyGraph\<lparr>created := 2\<rparr>,
      newAudioProcessor\<lparr>audioContext := Some (), analyser := Some 1,
                          dataArray := Some (zeros frequencyBinCount)\<rparr>)"
  by (simp add: initAudioContext.simps emptyGraph_def createNode_def newAudioProcessor_def)

lemma addOscillator_fresh:
  "addOscillator m (\<lparr>created = n, edges = es, running = rs, liveTracks = ts,
                     boundElements = bs, playing = ps\<rparr>, os) =
     (\<lparr>created = Suc (Suc n),
       edges = List.insert (Suc n, m) (List.insert (n, Suc n) es),
       running = List.insert n rs, liveTracks = ts, boundElements = bs, playing = ps\<rparr>,
      os @ [n])"
  by (simp add: addOscillator.simps createNode_def connect_def start_def)


lemma test_tone_started:
  "createTestTone True (emptyGraph, newAudioProcessor) =
     (True,
      \<lparr>created = 13,
       edges = [(12, 2), (11, 12), (10, 2), (9, 10), (8, 2), (7, 8), (6, 2), (5, 6),
                (4, 2), (3, 4), (2, 1)],
       running = [11, 9, 7, 5, 3], liveTracks = [], boundElements = [], playing = []\<rparr>,
      \<lparr>audioContext = Some (), analyser = Some 1,
       dataArray = Some (zeros frequencyBinCount), microphoneStream = None,
       oscillator = Some 5, sourceNode = None, mediaElementSource = None,
       connectedAudioElement = None\<rparr>)"
proof -
  have bank: "fold (\<lambda>i. addOscillator 2) [0..<length frequencies]
          (\<lparr>created = 5, edges = [(4, 2), (3, 4), (2, 1)], running = [3], liveTracks = [],
            boundElements = [], playing = []\<rparr>, [])
        = (\<lparr>created = 13,
            edges = [(12, 2), (11, 12), (10, 2), (9, 10), (8, 2), (7, 8), (6, 2), (5, 6),
                     (4, 2), (3, 4), (2, 1)],
            running = [11, 9, 7, 5, 3], liveTracks = [], boundElements = [], playing = []\<rparr>,
           [5, 7, 9, 11])"
    by (simp add: four_rounds addOscillator_fresh)
  show ?thesis
    unfolding createTestTone.simps init_fresh
    by (simp add: newAudioProcessor_def emptyGraph_def createNode_def connect_def start_def bank
          del: One_nat_def)
qed

subsection \<open>The analysis queries without a data array\<close>

lemma dataArray_cleanup: "dataArray (snd (cleanup (g, p))) = None"
  by (simp add: cleanup.simps Let_def split: option.splits prod.splits)

lemma queries_without_array:
  assumes "analyser p = None \<or> dataArray p = None"
  shows "getFrequencyData spectrum p = (None, p)"
    and "getRawVolume waveform p = 0"
    and "getFrequencyBands spectrum p = (zeros 8, p)"
  using assms
  by (auto simp: getFrequencyData_def getRawVolume_def getFrequencyBands_def split: option.splits)



subsection \<open>Cleanup\<close>

text \<open>Cleaning up twice, or with no source active, changes nothing more.\<close>

lemma cleanup_idempotent: "cleanup (cleanup (g, p)) = cleanup (g, p)"
  by (auto simp: cleanup.simps Let_def disconnect_def conj_ac split: option.splits prod.splits
        intro!: filter_cong)

lemma cleanup_idle: "cleanup (emptyGraph, newAudioProcessor) = (emptyGraph, newAudioProcessor)"
  by (simp add: cleanup.simps newAudioProcessor_def)

lemma cleanup_after_tone:
  "cleanup (snd (createTestTone True (emptyGraph, newAudioProcessor))) =
     (\<lparr>created = 13,
       edges = [(12, 2), (11, 12), (10, 2), (9, 10), (8, 2), (7, 8), (6, 2), (4, 2), (3, 4), (2, 1)],
       running = [11, 9, 7, 3], liveTracks = [], boundElements = [], playing = []\<rparr>,
      \<lparr>audioContext = Some (), analyser = Some 1, dataArray = None, microphoneStream = None,
       oscillator = None, sourceNode = None, mediaElementSource = None,
       connectedAudioElement = None\<rparr>)"
  unfolding test_tone_started snd_conv cleanup.simps
  by (simp add: stop_def disconnect_def del: One_nat_def)

text \<open>
  Claim C4 says that \<open>cleanup\<close> stops and disconnects every oscillator created for the
  test tone. The code at the claim's own input: a new processor starts the test tone
  (oscillators 3, 5, 7, 9 and 11 run; the processor keeps the first of the bank, 5, in
  \<open>oscillator\<close>), and \<open>cleanup\<close> follows. Only oscillator 5 is stopped and disconnected:
  the modulation oscillator 3 and the harmonics 7, 9 and 11 keep running, still connected
  through their gain nodes and the master gain 2 to the analyser 1.
\<close>

theorem cleanup_after_test_tone:
  "fst (createTestTone True (emptyGraph, newAudioProcessor)) = True
   \<and> running (fst (snd (createTestTone True (emptyGraph, newAudioProcessor)))) = [11, 9, 7, 5, 3]
   \<and> oscillator (snd (snd (createTestTone True (emptyGraph, newAudioProcessor)))) = Some 5
   \<and> running (fst (cleanup (snd (createTestTone True (emptyGraph, newAudioProcessor)))))
       = [11, 9, 7, 3]
   \<and> edges (fst (cleanup (snd (createTestTone True (emptyGraph, newAudioProcessor)))))
       = [(12, 2), (11, 12), (10, 2), (9, 10), (8, 2), (7, 8), (6, 2), (4, 2), (3, 4), (2, 1)]
   \<and> analyser (snd (cleanup (snd (createTestTone True (emptyGraph, newAudioProcessor)))))
       = Some 1"
  unfolding cleanup_after_tone unfolding test_tone_started by simp

subsection \<open>Switching the acquisition mode\<close>



section \<open>Stopping the visualizer\<close>

lemma rms_full_scale: "rms (replicate 2048 255) = 127 / 128"
proof -
  have "sumOfSquares (replicate 2048 255) = 2048 * ((127 / 128) * (127 / 128))"
    by (simp add: sumOfSquares_sum_list sum_list_replicate power2_eq_square)
  then have "rms (replicate 2048 255) = sqrt ((127 / 128) * (127 / 128))"
    by (simp add: rms_def)
  also have "\<dots> = 127 / 128" by (rule real_sqrt_unique) (simp_all add: power2_eq_square)
  finally show ?thesis .
qed

lemma stopListening_keeps_rawVolume:
  "rawVolume (fst (stopListening (v, g, p))) = rawVolume v"
  by (simp add: stopListening.simps Let_def split: prod.splits option.splits)

lemma stopListening_resets:
  "isListening (fst (stopListening (v, g, p))) = False
   \<and> microphoneStatus (fst (stopListening (v, g, p))) = Initial
   \<and> audioData_state (fst (stopListening (v, g, p))) = zeros 8
   \<and> audioLevel (fst (stopListening (v, g, p))) = 0
   \<and> snd (stopListening (v, g, p))
       = cleanup (case audioElementRef v of
                    Some el \<Rightarrow> (if microphoneStatus v = Sample then pause el g else g)
                  | None \<Rightarrow> g, p)"
  by (simp add: stopListening.simps Let_def split: prod.splits option.splits)

lemma poll_full_scale:
  "rawVolume (fst (updateAudioData True (zeros frequencyBinCount) (replicate 2048 255) 1
        (newVisualizer\<lparr>isListening := True, microphoneStatus := Test\<rparr>,
         snd (snd (createTestTone True (emptyGraph, newAudioProcessor)))))) = 127 / 128"
proof -
  have td: "timeDomainData (replicate 2048 255) = replicate 2048 255"
    by (simp add: timeDomainData_def fillBytes_def zeros_def fftSize_def)
  show ?thesis
    unfolding test_tone_started snd_conv updateAudioData.simps
    by (simp add: newVisualizer_def getFrequencyData_def getFrequencyBands_def
          getRawVolume_def td rms_full_scale Let_def split: prod.splits)
qed

text \<open>A poll that was armed before the stop and runs after it finds the data array gone
  and stores 0.\<close>

lemma poll_after_stop:
  "rawVolume (fst (updateAudioData True spectrum waveform timer
      (fst (stopListening (v, g, p)), snd (snd (stopListening (v, g, p)))))) = 0"
proof -
  define q where "q = snd (snd (stopListening (v, g, p)))"
  have "snd (stopListening (v, g, p))
      = cleanup (case audioElementRef v of
                   Some el \<Rightarrow> (if microphoneStatus v = Sample then pause el g else g)
                 | None \<Rightarrow> g, p)"
    using stopListening_resets [of v g p] by blast
  then have "dataArray q = None"
    unfolding q_def by (simp only: dataArray_cleanup)
  then have none: "analyser q = None \<or> dataArray q = None" by blast
  show ?thesis
    unfolding q_def [symmetric] updateAudioData.simps
    by (simp add: queries_without_array [OF none] Let_def)
qed

text \<open>
  Claim C9 says that \<open>stopListening\<close> resets the raw volume to 0. The code never writes
  the raw volume there (it resets the listening flag, the status, the band array and the
  audio level): whatever the last poll stored stays. At the claim's own input: the test
  tone runs, one poll reads a full-scale time-domain buffer and stores 127/128, and after
  \<open>stopListening\<close> the raw volume is still 127/128. (Only a poll that is still armed,
  because its timeout was not cleared, overwrites it later.)
\<close>

theorem stopListening_rawVolume:
  "rawVolume (fst (stopListening (v, g, p))) = rawVolume v
   \<and> rawVolume (fst (updateAudioData True (zeros frequencyBinCount) (replicate 2048 255) 1
        (newVisualizer\<lparr>isListening := True, microphoneStatus := Test\<rparr>,
         snd (snd (createTestTone True (emptyGraph, newAudioProcessor)))))) = 127 / 128
   \<and> rawVolume (fst (stopListening
        (fst (updateAudioData True (zeros frequencyBinCount) (replicate 2048 255) 1
           (newVisualizer\<lparr>isListening := True, microphoneStatus := Test\<rparr>,
            snd (snd (createTestTone True (emptyGraph, newAudioProcessor))))),
         fst (snd (createTestTone True (emptyGraph, newAudioProcessor))),
         snd (updateAudioData True (zeros frequencyBinCount) (replicate 2048 255) 1
           (newVisualizer\<lparr>isListening := True, microphoneStatus := Test\<rparr>,
            snd (snd (createTestTone True (emptyGraph, newAudioProcessor)))))))) = 127 / 128"
  by (simp only: stopListening_keeps_rawVolume poll_full_scale simp_thms)

end
